theory Spec2Isabelle
  imports Main
begin

section \<open>JavaScript values used by \<open>src/index.js\<close>\<close>

text \<open>
  Exceptions are values: a call that throws returns \<open>Inl\<close> of the error. \<open>Error\<close> is what
  the module raises itself with \<open>throw new Error(...)\<close>; \<open>TypeError\<close> is what the runtime
  raises when a member that is not a function is called.
\<close>

datatype js_error = Error string | TypeError string

text \<open>
  Template literals render a number in decimal and the value \<open>undefined\<close> as the word
  \<open>undefined\<close>. Counters and pixel sizes are natural numbers.
\<close>

definition digit_char :: "nat \<Rightarrow> char" where
  "digit_char d = ''0123456789'' ! d"

fun decimal :: "nat \<Rightarrow> string" where
  "decimal n = (if n < 10 then [digit_char n] else decimal (n div 10) @ [digit_char (n mod 10)])"

declare decimal.simps [simp del]

definition template_nat :: "nat option \<Rightarrow> string" where
  "template_nat v = (case v of None \<Rightarrow> ''undefined'' | Some n \<Rightarrow> decimal n)"

definition template_string :: "string option \<Rightarrow> string" where
  "template_string v = (case v of None \<Rightarrow> ''undefined'' | Some s \<Rightarrow> s)"

text \<open>
  \<open>String.prototype.split(sep)\<close> for a non-empty literal separator: the occurrences are
  found from left to right and do not overlap.
\<close>

fun split_acc :: "string \<Rightarrow> string \<Rightarrow> string \<Rightarrow> string list" where
  "split_acc sep acc [] = [rev acc]"
| "split_acc sep acc (c # cs) =
     (if sep \<noteq> [] \<and> take (length sep) (c # cs) = sep
      then rev acc # split_acc sep [] (drop (length sep) (c # cs))
      else split_acc sep (c # acc) cs)"

definition js_split :: "string \<Rightarrow> string \<Rightarrow> string list" where
  "js_split sep s = split_acc sep [] s"

text \<open>Indexing an array out of range yields \<open>undefined\<close>.\<close>

definition js_index :: "'a list \<Rightarrow> nat \<Rightarrow> 'a option" where
  "js_index xs i = (if i < length xs then Some (xs ! i) else None)"

text \<open>\<open>String.prototype.includes\<close>.\<close>

fun js_includes :: "string \<Rightarrow> string \<Rightarrow> bool" where
  "js_includes [] sub = (sub = [])"
| "js_includes (c # cs) sub = (take (length sub) (c # cs) = sub \<or> js_includes cs sub)"

text \<open>\<open>String.prototype.replace(pattern, '')\<close> with a string pattern: the first occurrence goes.\<close>

fun remove_first :: "string \<Rightarrow> string \<Rightarrow> string" where
  "remove_first pat [] = []"
| "remove_first pat (c # cs) =
     (if take (length pat) (c # cs) = pat then drop (length pat) (c # cs)
      else c # remove_first pat cs)"

text \<open>Replacing every occurrence of a non-empty pattern, from left to right.\<close>

fun replace_all :: "string \<Rightarrow> string \<Rightarrow> string \<Rightarrow> string" where
  "replace_all pat rep [] = []"
| "replace_all pat rep (c # cs) =
     (if pat \<noteq> [] \<and> take (length pat) (c # cs) = pat
      then rep @ replace_all pat rep (drop (length pat) (c # cs))
      else c # replace_all pat rep cs)"

subsection \<open>Numbers\<close>

text \<open>
  A JavaScript number is an IEEE 754 binary64 value. The numbers this module computes with
  (\<open>diffRatio\<close>, thresholds, blur radii) are not negative, so the model has the finite
  values \<open>m * 2 ^ e\<close> with \<open>m\<close> a natural number, and \<open>Infinity\<close> and \<open>NaN\<close>. A finite
  value is kept with its mantissa odd (or as \<open>Finite 0 0\<close>), so that equal values are equal
  terms.
\<close>

datatype jsnum = Finite nat int | Infinity | NaN

fun bitlen :: "nat \<Rightarrow> nat" where
  "bitlen n = (if n = 0 then 0 else Suc (bitlen (n div 2)))"

declare bitlen.simps [simp del]

fun strip_twos :: "nat \<Rightarrow> int \<Rightarrow> jsnum" where
  "strip_twos m e =
     (if m = 0 then Finite 0 0
      else if even m then strip_twos (m div 2) (e + 1)
      else Finite m e)"

declare strip_twos.simps [simp del]

text \<open>
  \<open>round_ratio p q\<close> is the binary64 value nearest to the rational \<open>p / q\<close> (\<open>q > 0\<close>), ties
  to the even mantissa: the exponent is chosen so that the mantissa has 53 bits, not below the
  exponent \<open>-1074\<close> of the subnormal numbers, and a result of \<open>2 ^ 1024\<close> or more is
  \<open>Infinity\<close>. \<open>scaled p q e\<close> is the fraction \<open>p / (q * 2 ^ e)\<close>, so \<open>scaled m 1 (- e)\<close> is
  \<open>m * 2 ^ e\<close>.
\<close>

definition scaled :: "nat \<Rightarrow> nat \<Rightarrow> int \<Rightarrow> nat \<times> nat" where
  "scaled p q e = (if 0 \<le> e then (p, q * 2 ^ nat e) else (p * 2 ^ nat (- e), q))"

definition round_half_even :: "nat \<times> nat \<Rightarrow> nat" where
  "round_half_even pq =
     (if 2 * (fst pq mod snd pq) > snd pq \<or> (2 * (fst pq mod snd pq) = snd pq \<and> odd (fst pq div snd pq))
      then fst pq div snd pq + 1 else fst pq div snd pq)"

definition at_least_53_bits :: "nat \<times> nat \<Rightarrow> bool" where
  "at_least_53_bits pq = (fst pq \<ge> snd pq * 2 ^ 53)"

definition pick_exponent :: "nat \<Rightarrow> nat \<Rightarrow> int \<Rightarrow> int" where
  "pick_exponent p q e0 = max (if at_least_53_bits (scaled p q e0) then e0 + 1 else e0) (- 1074)"

definition overflow_or :: "nat \<Rightarrow> int \<Rightarrow> jsnum" where
  "overflow_or m e = (if e > 971 \<or> (e = 971 \<and> m = 2 ^ 53) then Infinity else strip_twos m e)"

definition round_at :: "nat \<Rightarrow> nat \<Rightarrow> int \<Rightarrow> jsnum" where
  "round_at p q e = overflow_or (round_half_even (scaled p q e)) e"

definition round_ratio :: "nat \<Rightarrow> nat \<Rightarrow> jsnum" where
  "round_ratio p q =
     (if p = 0 then Finite 0 0
      else round_at p q (pick_exponent p q (int (bitlen p) - int (bitlen q) - 53)))"

definition round_pair :: "nat \<times> nat \<Rightarrow> jsnum" where
  "round_pair pq = round_ratio (fst pq) (snd pq)"

text \<open>The product of two numbers, and a decimal literal \<open>s * 10 ^ t\<close>.\<close>

fun js_times :: "jsnum \<Rightarrow> jsnum \<Rightarrow> jsnum" where
  "js_times (Finite m e) (Finite m' e') = round_pair (scaled (m * m') 1 (- (e + e')))"
| "js_times NaN b = NaN"
| "js_times a NaN = NaN"
| "js_times Infinity (Finite m' e') = (if m' = 0 then NaN else Infinity)"
| "js_times (Finite m e) Infinity = (if m = 0 then NaN else Infinity)"
| "js_times Infinity Infinity = Infinity"

text \<open>\<open>tens p q t\<close> is the fraction \<open>(p / q) / 10 ^ t\<close>.\<close>

definition tens :: "nat \<Rightarrow> nat \<Rightarrow> int \<Rightarrow> nat \<times> nat" where
  "tens p q t = (if 0 \<le> t then (p, q * 10 ^ nat t) else (p * 10 ^ nat (- t), q))"

definition js_literal :: "nat \<Rightarrow> int \<Rightarrow> jsnum" where
  "js_literal s t = round_pair (tens s 1 (- t))"

text \<open>
  A number in a template literal is rendered by \<open>Number::toString\<close> (ECMAScript, radix 10):
  with \<open>k\<close> as small as possible, the decimal digits \<open>s\<close> (\<open>k\<close> of them) and the exponent \<open>n\<close>
  are such that \<open>s * 10 ^ (n - k)\<close> rounds to the number, the nearest such \<open>s\<close> where two fit
  (the even one of two equally near); 17 digits always suffice. \<open>decimal_exponent p q\<close> is the
  \<open>n\<close> with \<open>10 ^ (n - 1) \<le> p / q < 10 ^ n\<close>; the least finite number is above \<open>10 ^ (- 324)\<close>.
\<close>

function least_scale :: "nat \<Rightarrow> nat \<Rightarrow> nat \<Rightarrow> nat" where
  "least_scale p q j = (if p * 10 ^ j \<ge> q \<or> 400 \<le> j then j else least_scale p q (Suc j))"
  by pat_completeness auto
termination
  by (relation "measure (\<lambda>(p, q, j). 400 - j)") auto

declare least_scale.simps [simp del]

definition decimal_exponent :: "nat \<times> nat \<Rightarrow> int" where
  "decimal_exponent pq =
     (if fst pq \<ge> snd pq then int (length (decimal (fst pq div snd pq)))
      else 1 - int (least_scale (fst pq) (snd pq) 1))"

definition decide :: "int \<Rightarrow> nat \<Rightarrow> nat \<Rightarrow> bool \<Rightarrow> bool \<Rightarrow> bool \<Rightarrow> (int \<times> nat) option" where
  "decide n k lo ok_lo ok_hi prefer_hi =
     (if ok_hi \<and> (prefer_hi \<or> \<not> ok_lo) then Some (if lo + 1 = 10 ^ k then (n + 1, 1) else (n, lo + 1))
      else if ok_lo then Some (n, lo)
      else None)"

definition candidates :: "jsnum \<Rightarrow> int \<Rightarrow> nat \<Rightarrow> nat \<times> nat \<Rightarrow> (int \<times> nat) option" where
  "candidates v n k PQ =
     decide n k (fst PQ div snd PQ)
       (js_literal (fst PQ div snd PQ) (n - int k) = v)
       (js_literal (fst PQ div snd PQ + 1) (n - int k) = v)
       (2 * (fst PQ mod snd PQ) > snd PQ \<or> (2 * (fst PQ mod snd PQ) = snd PQ \<and> odd (fst PQ div snd PQ)))"

function shortest_digits :: "nat \<Rightarrow> jsnum \<Rightarrow> nat \<times> nat \<Rightarrow> int \<Rightarrow> int \<times> nat" where
  "shortest_digits k v pq n =
     (if 17 < k then (n, 0)
      else case candidates v n k (tens (fst pq) (snd pq) (n - int k)) of
             Some r \<Rightarrow> r
           | None \<Rightarrow> shortest_digits (Suc k) v pq n)"
  by pat_completeness auto
termination
  by (relation "measure (\<lambda>(k, v, pq, n). 18 - k)") auto

declare shortest_digits.simps [simp del]

definition exponent_part :: "int \<Rightarrow> string" where
  "exponent_part ex = (if ex < 0 then ''e-'' else ''e+'') @ decimal (nat \<bar>ex\<bar>)"

definition format_digits :: "int \<Rightarrow> string \<Rightarrow> string" where
  "format_digits n ds =
     (if int (length ds) \<le> n \<and> n \<le> 21 then ds @ replicate (nat (n - int (length ds))) (CHR ''0'')
      else if 0 < n \<and> n \<le> 21 then take (nat n) ds @ ''.'' @ drop (nat n) ds
      else if - 6 < n \<and> n \<le> 0 then ''0.'' @ replicate (nat (- n)) (CHR ''0'') @ ds
      else if length ds = 1 then ds @ exponent_part (n - 1)
      else take 1 ds @ ''.'' @ drop 1 ds @ exponent_part (n - 1))"

definition format_pair :: "int \<times> nat \<Rightarrow> string" where
  "format_pair ns = format_digits (fst ns) (decimal (snd ns))"

definition render_ratio :: "jsnum \<Rightarrow> nat \<times> nat \<Rightarrow> string" where
  "render_ratio v pq = format_pair (shortest_digits 1 v pq (decimal_exponent pq))"

fun js_number_string :: "jsnum \<Rightarrow> string" where
  "js_number_string NaN = ''NaN''"
| "js_number_string Infinity = ''Infinity''"
| "js_number_string (Finite m e) =
     (if m = 0 then ''0'' else render_ratio (strip_twos m e) (scaled m 1 (- e)))"

subsection \<open>Base64 and terminal styling\<close>

text \<open>
  A string is the list of its UTF-8 bytes, so \<open>Buffer.from(s).toString('base64')\<close> is the
  Base64 encoding of the string itself, three bytes to four characters, padded with \<open>=\<close>.
\<close>

definition b64 :: "nat \<Rightarrow> char" where
  "b64 n = ''ABCDEFGHIJKLMNOPQRSTUVWXYZabcdefghijklmnopqrstuvwxyz0123456789+/'' ! n"

fun base64 :: "string \<Rightarrow> string" where
  "base64 [] = []"
| "base64 [a] = [b64 (of_char a div 4), b64 (of_char a mod 4 * 16), CHR ''='', CHR ''='']"
| "base64 [a, b] =
     [b64 (of_char a div 4), b64 (of_char a mod 4 * 16 + of_char b div 16),
      b64 (of_char b mod 16 * 4), CHR ''='']"
| "base64 (a # b # c # rest) =
     [b64 (of_char a div 4), b64 (of_char a mod 4 * 16 + of_char b div 16),
      b64 (of_char b mod 16 * 4 + of_char c div 64), b64 (of_char c mod 64)] @ base64 rest"

text \<open>
  \<open>chalk\<close> (version 4, whose \<open>Instance\<close> the module constructs): a style is the pair of its
  opening and closing escape sequences, and a chain such as \<open>chalk.bold.red\<close> is the list of its
  styles, outermost first. At level 0, and on the empty string, styling returns the text as it
  is. Otherwise the text is put between the opening and the closing sequences of the chain;
  inside the text each closing sequence is followed by its opening sequence again, and each
  line break is put between the closing and the opening sequences.
\<close>

definition sgr :: "nat \<Rightarrow> string" where
  "sgr n = [CHR 0x1B, CHR ''[''] @ decimal n @ ''m''"

type_synonym style = "string \<times> string"

definition bold :: style where "bold = (sgr 1, sgr 22)"
definition red :: style where "red = (sgr 31, sgr 39)"
definition bgCyan :: style where "bgCyan = (sgr 46, sgr 49)"

fun encase_lines :: "string \<Rightarrow> string \<Rightarrow> string \<Rightarrow> string" where
  "encase_lines pre post [] = []"
| "encase_lines pre post (c # cs) =
     (if c = CHR 0x0A then pre @ [c] @ post @ encase_lines pre post cs
      else if c = CHR 0x0D \<and> take 1 cs = [CHR 0x0A]
      then pre @ [c, CHR 0x0A] @ post @ encase_lines pre post (drop 1 cs)
      else c # encase_lines pre post cs)"

definition reopen :: "style list \<Rightarrow> string \<Rightarrow> string" where
  "reopen chain s =
     (if CHR 0x1B \<in> set s
      then fold (\<lambda>st t. replace_all (snd st) (snd st @ fst st) t) (rev chain) s
      else s)"

definition applyStyle :: "nat \<Rightarrow> style list \<Rightarrow> string \<Rightarrow> string" where
  "applyStyle level chain s =
     (if level = 0 \<or> s = [] then s
      else concat (map fst chain)
           @ encase_lines (concat (map snd (rev chain))) (concat (map fst chain)) (reopen chain s)
           @ concat (map snd (rev chain)))"

section \<open>The run state and its guarded update\<close>

text \<open>
  The snapshot state of the test runner, with the members this module reads and writes:
  the four counters, the map \<open>_counters\<close> from a test name to the number of matcher calls made
  in that test, and the update mode \<open>_updateSnapshot\<close> (\<open>none\<close>, \<open>new\<close> or \<open>all\<close>). The counters
  are natural numbers (a JavaScript number counts exactly up to \<open>2 ^ 53\<close>).
\<close>

record snapshot_state =
  matched :: nat
  added :: nat
  updated :: nat
  unmatched :: nat
  counters :: "string \<rightharpoonup> nat"
  updateSnapshot :: string

text \<open>A partial state, as passed to \<open>merge\<close>: the members that are present.\<close>

record partial_state =
  set_matched :: "nat option"
  set_added :: "nat option"
  set_updated :: "nat option"
  set_unmatched :: "nat option"
  set_counters :: "(string \<rightharpoonup> nat) option"

definition no_members :: partial_state where
  "no_members = \<lparr>set_matched = None, set_added = None, set_updated = None,
                  set_unmatched = None, set_counters = None\<rparr>"

definition merge :: "snapshot_state \<Rightarrow> partial_state \<Rightarrow> snapshot_state" where
  "merge st p =
     st\<lparr>matched := (case set_matched p of None \<Rightarrow> matched st | Some v \<Rightarrow> v),
        added := (case set_added p of None \<Rightarrow> added st | Some v \<Rightarrow> v),
        updated := (case set_updated p of None \<Rightarrow> updated st | Some v \<Rightarrow> v),
        unmatched := (case set_unmatched p of None \<Rightarrow> unmatched st | Some v \<Rightarrow> v),
        counters := (case set_counters p of None \<Rightarrow> counters st | Some v \<Rightarrow> v)\<rparr>"

section \<open>The process and the collaborators\<close>

text \<open>
  The request handed to the image comparison (\<open>diffImageToSnapshot\<close>, or
  \<open>runDiffImageToSnapshot\<close> in a child process), member by member (each under its name,
  after \<open>rq_\<close>).
\<close>

record engine_request =
  rq_receivedImageBuffer :: string
  rq_snapshotsDir :: string
  rq_storeReceivedOnFailure :: bool
  rq_receivedDir :: string
  rq_receivedPostfix :: string
  rq_diffDir :: string
  rq_diffDirection :: string
  rq_onlyDiff :: bool
  rq_snapshotIdentifier :: string
  rq_updateSnapshot :: bool
  rq_customDiffConfig :: "string \<rightharpoonup> string"
  rq_failureThreshold :: jsnum
  rq_failureThresholdType :: string
  rq_updatePassedSnapshot :: bool
  rq_blur :: jsnum
  rq_allowSizeMismatch :: bool
  rq_comparisonMethod :: string

text \<open>
  What the module does to the world outside it is logged, in order: the baseline path reported
  to \<open>OutdatedSnapshotReporter.markTouchedFile\<close>, the comparison started (in process or not),
  the desktop notification, the text written to the standard output, a prompt started and a
  prompt stopped (by its name), the command handed to \<open>childProc.exec\<close>, and a file renamed.
\<close>

datatype effect =
    MarkTouchedFile string
  | Compare bool engine_request
  | Notify string string
  | StdoutWrite string
  | PromptRun string string
  | PromptStop string
  | ChildExec string
  | RenameSync string string

text \<open>
  The state of the process: the global \<open>UNSTABLE_SKIP_REPORTING\<close>; the global under
  \<open>Symbol.for('RETRY_TIMES')\<close>, absent or an integer; the module-level map \<open>timesCalled\<close>; the
  files, a map from a path to the bytes stored there; the environment variables; the colour
  level \<open>chalk\<close> detects when it is given none; and the log of effects.

  \<open>fs_syncExists\<close> says whether the \<open>fs\<close> module object has a member \<open>syncExists\<close>, which then
  tells whether a file exists. The module calls \<open>fs.existsSync\<close> at line 216 and
  \<open>fs.syncExists\<close> at line 248; the \<open>fs\<close> module of Node.js has the former and not the latter,
  and calling a member that is absent raises a \<open>TypeError\<close>.
\<close>

record world =
  UNSTABLE_SKIP_REPORTING :: bool
  RETRY_TIMES :: "int option"
  timesCalled :: "string \<rightharpoonup> nat"
  files :: "string \<rightharpoonup> string"
  fs_syncExists :: bool
  process_env :: "string \<rightharpoonup> string"
  detected_level :: nat
  effects :: "effect list"

definition emit :: "effect \<Rightarrow> world \<Rightarrow> world" where
  "emit e w = w\<lparr>effects := effects w @ [e]\<rparr>"

definition existsSync :: "world \<Rightarrow> string \<Rightarrow> bool" where
  "existsSync w path = (files w path \<noteq> None)"

text \<open>\<open>fs.renameSync\<close> moves the bytes to the new path, and throws when there is no such file.\<close>

definition renameSync :: "string \<Rightarrow> string \<Rightarrow> world \<Rightarrow> js_error + world" where
  "renameSync oldPath newPath w =
     (case files w oldPath of
        None \<Rightarrow> Inl (Error ''ENOENT: no such file or directory, rename'')
      | Some bytes \<Rightarrow>
          Inr (emit (RenameSync oldPath newPath)
                 (w\<lparr>files := ((files w)(oldPath := None))(newPath \<mapsto> bytes)\<rparr>)))"

text \<open>
  Modelled from the spec: the result of a comparison, which \<open>./diff-snapshot\<close> builds, is one of
  \<open>Added\<close> (no baseline existed, one was written), \<open>Updated\<close> (the baseline was replaced) and
  \<open>Compared\<close> with the members \<open>checkResult\<close> reads. \<open>checkResult\<close> tests \<open>result.updated\<close>, then
  \<open>result.added\<close>, then reads \<open>result.pass\<close>: the order of the cases below.
\<close>

record image_dimensions =
  baselineWidth :: nat
  baselineHeight :: nat
  receivedWidth :: nat
  receivedHeight :: nat

record compared =
  result_pass :: bool
  diffRatio :: jsnum
  diffPixelCount :: nat
  diffSize :: bool
  imageDimensions :: image_dimensions
  diffOutputPath :: string
  imgSrcString :: string

datatype comparison_result = Updated | Added | Compared compared

text \<open>
  The collaborators the module requires and does not define: \<open>kebabCase\<close> of lodash, three
  functions of the \<open>path\<close> module, and the two ways to run the comparison, which read and write
  files and may throw.
\<close>

type_synonym engine =
  "engine_request \<Rightarrow> (string \<rightharpoonup> string) \<Rightarrow> (js_error + comparison_result) \<times> (string \<rightharpoonup> string)"

record collaborators =
  kebabCase :: "string \<Rightarrow> string"
  basename :: "string \<Rightarrow> string"
  dirname :: "string \<Rightarrow> string"
  join :: "string list \<Rightarrow> string"
  diffImageToSnapshot :: engine
  runDiffImageToSnapshot :: engine

definition SNAPSHOTS_DIR :: string where "SNAPSHOTS_DIR = ''__image_snapshots__''"
definition DIFF_DIR :: string where "DIFF_DIR = ''__diff_output''"
definition RECEIVED_DIR :: string where "RECEIVED_DIR = ''__received_snapshots__''"

section \<open>\<open>updateSnapshotState\<close>\<close>

definition updateSnapshotState :: "world \<Rightarrow> snapshot_state \<Rightarrow> partial_state \<Rightarrow> snapshot_state" where
  "updateSnapshotState w originalSnapshotState partialSnapshotState =
     (if UNSTABLE_SKIP_REPORTING w then originalSnapshotState
      else merge originalSnapshotState partialSnapshotState)"

section \<open>\<open>checkResult\<close>\<close>

text \<open>
  The verdict returned to the test runner. \<open>message\<close> is a closure the reporter may call
  later: it takes the state of the process at the time of the call and returns the text and
  the state it leaves.
\<close>

record verdict =
  message :: "world \<Rightarrow> string \<times> world"
  pass :: bool

definition LF :: string where "LF = [CHR 0x0A]"

definition supportedInlineTerms :: "string list" where
  "supportedInlineTerms = [''iTerm.app'', ''WezTerm'']"

definition size_failure :: "image_dimensions \<Rightarrow> string" where
  "size_failure d =
     ''Expected image to be the same size as the snapshot ('' @ decimal (baselineWidth d) @ ''x''
     @ decimal (baselineHeight d) @ ''), but was different ('' @ decimal (receivedWidth d) @ ''x''
     @ decimal (receivedHeight d) @ '').'' @ LF"

definition percentage_failure :: "jsnum \<Rightarrow> nat \<Rightarrow> string" where
  "percentage_failure differencePercentage count =
     ''Expected image to match or be a close match to snapshot but was ''
     @ js_number_string differencePercentage @ ''% different from snapshot ('' @ decimal count
     @ '' differing pixels).'' @ LF"

definition see_diff :: "nat \<Rightarrow> string \<Rightarrow> string" where
  "see_diff chalk path =
     applyStyle chalk [bold, red] ''See diff for details:'' @ '' '' @ applyStyle chalk [red] path"

definition inline_diff :: "compared \<Rightarrow> string" where
  "inline_diff result =
     LF @ LF @ [CHR 0x09, CHR 0x1B] @ '']1337;File=name='' @ base64 (diffOutputPath result)
     @ '';inline=1;width=40:'' @ remove_first ''data:image/png;base64,'' (imgSrcString result)
     @ [CHR 0x07, CHR 0x1B] @ LF @ LF"

definition paste_diff :: "nat \<Rightarrow> compared \<Rightarrow> string" where
  "paste_diff chalk result =
     LF @ applyStyle chalk [bold, red]
            (''Or paste below image diff string to your browser'' @ [CHR 0x60] @ ''s URL bar.'')
     @ LF @ '' '' @ imgSrcString result"

definition inline_terminal :: "world \<Rightarrow> bool" where
  "inline_terminal w =
     ((case process_env w ''TERM_PROGRAM'' of
         None \<Rightarrow> False
       | Some term \<Rightarrow> term \<in> set supportedInlineTerms)
      \<or> process_env w ''ENABLE_INLINE_DIFF'' \<noteq> None)"

definition failure_message ::
  "compared \<Rightarrow> jsnum \<Rightarrow> nat \<Rightarrow> bool \<Rightarrow> bool \<Rightarrow> bool \<Rightarrow> world \<Rightarrow> string \<times> world" where
  "failure_message result differencePercentage chalk dumpDiffToConsole dumpInlineDiffToConsole
     allowSizeMismatch w =
     ((if diffSize result \<and> \<not> allowSizeMismatch then size_failure (imageDimensions result)
       else percentage_failure differencePercentage (diffPixelCount result))
      @ see_diff chalk (diffOutputPath result)
      @ (if dumpInlineDiffToConsole \<and> inline_terminal w then inline_diff result
         else if dumpDiffToConsole \<or> dumpInlineDiffToConsole then paste_diff chalk result
         else []),
      w)"

definition empty_message :: "world \<Rightarrow> string \<times> world" where
  "empty_message w = ([], w)"

text \<open>\<open>currentRun > retryTimes\<close>, where \<open>currentRun\<close> is \<open>undefined\<close> for an identifier not in the map.\<close>

definition exceeds :: "nat option \<Rightarrow> int \<Rightarrow> bool" where
  "exceeds currentRun retryTimes =
     (case currentRun of None \<Rightarrow> False | Some n \<Rightarrow> int n > retryTimes)"

definition checkResult ::
  "world \<Rightarrow> comparison_result \<Rightarrow> snapshot_state \<Rightarrow> int \<Rightarrow> string \<Rightarrow> nat \<Rightarrow> bool \<Rightarrow> bool \<Rightarrow> bool
   \<Rightarrow> verdict \<times> snapshot_state" where
  "checkResult w result snapshotState retryTimes snapshotIdentifier chalk dumpDiffToConsole
     dumpInlineDiffToConsole allowSizeMismatch =
     (case result of
        Updated \<Rightarrow>
          (\<lparr>message = empty_message, pass = True\<rparr>,
           updateSnapshotState w snapshotState
             (no_members\<lparr>set_updated := Some (updated snapshotState + 1)\<rparr>))
      | Added \<Rightarrow>
          (\<lparr>message = empty_message, pass = True\<rparr>,
           updateSnapshotState w snapshotState
             (no_members\<lparr>set_added := Some (added snapshotState + 1)\<rparr>))
      | Compared r \<Rightarrow>
          if result_pass r
          then (\<lparr>message = empty_message, pass = True\<rparr>,
                updateSnapshotState w snapshotState
                  (no_members\<lparr>set_matched := Some (matched snapshotState + 1)\<rparr>))
          else (\<lparr>message =
                    failure_message r (js_times (diffRatio r) (js_literal 100 0)) chalk
                      dumpDiffToConsole dumpInlineDiffToConsole allowSizeMismatch,
                  pass = False\<rparr>,
                if retryTimes = 0 \<or> exceeds (timesCalled w snapshotIdentifier) retryTimes
                then updateSnapshotState w snapshotState
                       (no_members\<lparr>set_unmatched := Some (unmatched snapshotState + 1)\<rparr>)
                else snapshotState))"

section \<open>\<open>createSnapshotIdentifier\<close>\<close>

text \<open>
  A custom identifier is a string or a function of \<open>testPath\<close>, \<open>currentTestName\<close>, \<open>counter\<close>
  and \<open>defaultIdentifier\<close>; an absent one is \<open>None\<close>. The function's result is a string, the
  empty string standing for every result that is falsy.
\<close>

datatype custom_identifier =
    IdLiteral string
  | IdFunction "string \<Rightarrow> string \<Rightarrow> nat option \<Rightarrow> string \<Rightarrow> string"

definition falsy :: "custom_identifier option \<Rightarrow> bool" where
  "falsy c = (case c of None \<Rightarrow> True | Some (IdLiteral s) \<Rightarrow> s = [] | Some (IdFunction f) \<Rightarrow> False)"

definition retry_error :: js_error where
  "retry_error = Error ''A unique customSnapshotIdentifier must be set when jest.retryTimes() is used''"

text \<open>
  \<open>timesCalled.set(id, (timesCalled.get(id) || 0) + 1)\<close>, where \<open>attempts\<close> is
  \<open>timesCalled.get(id) || 0\<close>.
\<close>

definition attempts :: "world \<Rightarrow> string \<Rightarrow> nat" where
  "attempts w snapshotIdentifier =
     (case timesCalled w snapshotIdentifier of None \<Rightarrow> 0 | Some n \<Rightarrow> n)"

definition count_call :: "string \<Rightarrow> world \<Rightarrow> world" where
  "count_call snapshotIdentifier w =
     w\<lparr>timesCalled := (timesCalled w)(snapshotIdentifier \<mapsto> attempts w snapshotIdentifier + 1)\<rparr>"

text \<open>Lines 132 to 138: under retries a custom identifier is required and the call is counted.\<close>

definition register ::
  "int \<Rightarrow> custom_identifier option \<Rightarrow> string \<Rightarrow> world \<Rightarrow> js_error + string \<times> world" where
  "register retryTimes customSnapshotIdentifier snapshotIdentifier w =
     (if retryTimes \<noteq> 0
      then (if falsy customSnapshotIdentifier then Inl retry_error
            else Inr (snapshotIdentifier, count_call snapshotIdentifier w))
      else Inr (snapshotIdentifier, w))"

text \<open>Line 116, \<open>kebabCase(`${path.basename(testPath)}-${currentTestName}-${counter}`)\<close>.\<close>

definition defaultIdentifier_of :: "collaborators \<Rightarrow> string \<Rightarrow> string \<Rightarrow> nat option \<Rightarrow> string" where
  "defaultIdentifier_of lib testPath currentTestName counter =
     kebabCase lib (basename lib testPath @ ''-'' @ currentTestName @ ''-'' @ template_nat counter)"

definition createSnapshotIdentifier ::
  "collaborators \<Rightarrow> int \<Rightarrow> string \<Rightarrow> string \<Rightarrow> custom_identifier option \<Rightarrow> snapshot_state \<Rightarrow> world
   \<Rightarrow> js_error + string \<times> world" where
  "createSnapshotIdentifier lib retryTimes testPath currentTestName customSnapshotIdentifier
     snapshotState w =
     (let counter = counters snapshotState currentTestName;
          dirName = js_split ''...'' currentTestName;
          itTitle = js_index dirName 1;
          defaultIdentifier = defaultIdentifier_of lib testPath currentTestName counter
      in case customSnapshotIdentifier of
           Some (IdFunction f) \<Rightarrow>
             (let customRes = f testPath currentTestName counter defaultIdentifier
              in if retryTimes \<noteq> 0 \<and> customRes = [] then Inl retry_error
                 else register retryTimes customSnapshotIdentifier
                        (if customRes \<noteq> [] then customRes else defaultIdentifier) w)
         | Some (IdLiteral s) \<Rightarrow>
             register retryTimes customSnapshotIdentifier
               (if s \<noteq> [] then s else template_string itTitle @ ''-snap'') w
         | None \<Rightarrow>
             register retryTimes customSnapshotIdentifier (template_string itTitle @ ''-snap'') w)"

section \<open>\<open>configureToMatchImageSnapshot\<close> and the matcher it returns\<close>

text \<open>
  An options object: every member may be absent. The same members are accepted by
  \<open>configureToMatchImageSnapshot\<close> and by each call of the matcher.
\<close>

record options =
  opt_customDiffConfig :: "(string \<rightharpoonup> string) option"
  opt_customSnapshotIdentifier :: "custom_identifier option"
  opt_customSnapshotsDir :: "string option"
  opt_storeReceivedOnFailure :: "bool option"
  opt_customReceivedDir :: "string option"
  opt_customReceivedPostfix :: "string option"
  opt_customDiffDir :: "string option"
  opt_onlyDiff :: "bool option"
  opt_diffDirection :: "string option"
  opt_noColors :: "bool option"
  opt_failureThreshold :: "jsnum option"
  opt_failureThresholdType :: "string option"
  opt_updatePassedSnapshot :: "bool option"
  opt_blur :: "jsnum option"
  opt_runInProcess :: "bool option"
  opt_dumpDiffToConsole :: "bool option"
  opt_dumpInlineDiffToConsole :: "bool option"
  opt_allowSizeMismatch :: "bool option"
  opt_comparisonMethod :: "string option"

definition no_options :: options where
  "no_options =
     \<lparr>opt_customDiffConfig = None, opt_customSnapshotIdentifier = None,
      opt_customSnapshotsDir = None, opt_storeReceivedOnFailure = None,
      opt_customReceivedDir = None, opt_customReceivedPostfix = None, opt_customDiffDir = None,
      opt_onlyDiff = None, opt_diffDirection = None, opt_noColors = None,
      opt_failureThreshold = None, opt_failureThresholdType = None,
      opt_updatePassedSnapshot = None, opt_blur = None, opt_runInProcess = None,
      opt_dumpDiffToConsole = None, opt_dumpInlineDiffToConsole = None,
      opt_allowSizeMismatch = None, opt_comparisonMethod = None\<rparr>"

text \<open>A destructuring default applies where the member is absent.\<close>

definition default_to :: "'a option \<Rightarrow> 'a \<Rightarrow> 'a" where
  "default_to v d = (case v of None \<Rightarrow> d | Some x \<Rightarrow> x)"

definition or_else :: "'a option \<Rightarrow> 'a option \<Rightarrow> 'a option" where
  "or_else v d = (case v of None \<Rightarrow> d | Some x \<Rightarrow> Some x)"

text \<open>The common configuration, after the defaults of \<open>configureToMatchImageSnapshot\<close>.\<close>

record common_config =
  commonCustomDiffConfig :: "string \<rightharpoonup> string"
  commonCustomSnapshotIdentifier :: "custom_identifier option"
  commonCustomSnapshotsDir :: "string option"
  commonStoreReceivedOnFailure :: bool
  commonCustomReceivedDir :: "string option"
  commonCustomReceivedPostfix :: string
  commonCustomDiffDir :: "string option"
  commonOnlyDiff :: bool
  commonDiffDirection :: string
  commonNoColors :: "bool option"
  commonFailureThreshold :: jsnum
  commonFailureThresholdType :: string
  commonUpdatePassedSnapshot :: bool
  commonBlur :: jsnum
  commonRunInProcess :: bool
  commonDumpDiffToConsole :: bool
  commonDumpInlineDiffToConsole :: bool
  commonAllowSizeMismatch :: bool
  commonComparisonMethod :: string

definition common_defaults :: "options \<Rightarrow> common_config" where
  "common_defaults c =
     \<lparr>commonCustomDiffConfig = default_to (opt_customDiffConfig c) Map.empty,
      commonCustomSnapshotIdentifier = opt_customSnapshotIdentifier c,
      commonCustomSnapshotsDir = opt_customSnapshotsDir c,
      commonStoreReceivedOnFailure = default_to (opt_storeReceivedOnFailure c) True,
      commonCustomReceivedDir = opt_customReceivedDir c,
      commonCustomReceivedPostfix = default_to (opt_customReceivedPostfix c) ''-received'',
      commonCustomDiffDir = opt_customDiffDir c,
      commonOnlyDiff = default_to (opt_onlyDiff c) False,
      commonDiffDirection = default_to (opt_diffDirection c) ''horizontal'',
      commonNoColors = opt_noColors c,
      commonFailureThreshold = default_to (opt_failureThreshold c) (Finite 0 0),
      commonFailureThresholdType = default_to (opt_failureThresholdType c) ''pixel'',
      commonUpdatePassedSnapshot = default_to (opt_updatePassedSnapshot c) False,
      commonBlur = default_to (opt_blur c) (Finite 0 0),
      commonRunInProcess = default_to (opt_runInProcess c) False,
      commonDumpDiffToConsole = default_to (opt_dumpDiffToConsole c) False,
      commonDumpInlineDiffToConsole = default_to (opt_dumpInlineDiffToConsole c) False,
      commonAllowSizeMismatch = default_to (opt_allowSizeMismatch c) False,
      commonComparisonMethod = default_to (opt_comparisonMethod c) ''pixelmatch''\<rparr>"

text \<open>The matcher context \<open>this\<close>, as the test runner provides it.\<close>

record matcher_context =
  this_testPath :: string
  this_currentTestName :: string
  this_isNot :: bool
  this_snapshotState :: snapshot_state

text \<open>
  Line 197. The argument is evaluated before \<open>updateSnapshotState\<close> is called, and
  \<open>Map.prototype.set\<close> changes the map it is called on and returns that same map: the entry
  is already written into \<open>snapshotState._counters\<close> when the guard is reached, and the partial
  state passed on holds that map.
\<close>

definition recordInvocation :: "world \<Rightarrow> snapshot_state \<Rightarrow> string \<Rightarrow> snapshot_state" where
  "recordInvocation w snapshotState currentTestName =
     (let written =
            snapshotState\<lparr>counters := (counters snapshotState)
              (currentTestName \<mapsto>
                 (case counters snapshotState currentTestName of None \<Rightarrow> 0 | Some n \<Rightarrow> n) + 1)\<rparr>
      in updateSnapshotState w written (no_members\<lparr>set_counters := Some (counters written)\<rparr>))"

text \<open>\<open>a || b\<close> on a directory option: an absent and an empty string are falsy.\<close>

definition or_path :: "string option \<Rightarrow> string \<Rightarrow> string" where
  "or_path custom fallback = (case custom of None \<Rightarrow> fallback | Some d \<Rightarrow> if d = [] then fallback else d)"

text \<open>\<open>dirName[0]\<close>: \<open>split\<close> returns at least one segment.\<close>

definition describeName_of :: "string \<Rightarrow> string" where
  "describeName_of currentTestName = (case js_split ''...'' currentTestName of [] \<Rightarrow> [] | d # _ \<Rightarrow> d)"

text \<open>
  The outcome of \<open>Promise.race\<close> between a prompt and its timer of 60 seconds: the prompt
  answered first, the timer fired first (and resolves to \<open>false\<close>), or the prompt rejected
  first, in which case the \<open>await\<close> throws.
\<close>

datatype race = Answered bool | TimedOut | Rejected js_error

definition missing_baseline_message :: "nat \<Rightarrow> world \<Rightarrow> string \<times> world" where
  "missing_baseline_message chalk w =
     (''New snapshot was '' @ applyStyle chalk [bold, red] ''not written''
      @ ''. The update flag must be explicitly '' @ ''passed to write a new snapshot.'' @ LF @ LF
      @ '' + This is likely because this test is run in a continuous ''
      @ ''integration (CI) environment in which snapshots are not written by default.'' @ LF @ LF,
      w)"

text \<open>Lines 275 to 289: the update prompt, its race, and the rename.\<close>

definition updatePrompt ::
  "string \<Rightarrow> string \<Rightarrow> string \<Rightarrow> race \<Rightarrow> comparison_result \<Rightarrow> world
   \<Rightarrow> (js_error + comparison_result) \<times> world" where
  "updatePrompt snapshotIdentifier receivedPath baselineSnapshotPath updateRace result w =
     (let w1 = emit (PromptRun ''Update Question''
                       (''Do you want to update '' @ snapshotIdentifier @ ''?'')) w
      in case updateRace of
           Rejected e \<Rightarrow> (Inl e, w1)
         | Answered True \<Rightarrow>
             (case renameSync receivedPath baselineSnapshotPath w1 of
                Inl e \<Rightarrow> (Inl e, w1)
              | Inr w2 \<Rightarrow> (Inr Updated, w2))
         | _ \<Rightarrow> (Inr result, emit (PromptStop ''Update Question'') w1))"

text \<open>Lines 250 to 289: the notification, the view prompt and its race, then the update prompt.\<close>

definition interactiveReview ::
  "string \<Rightarrow> nat \<Rightarrow> string \<Rightarrow> string \<Rightarrow> string \<Rightarrow> string \<Rightarrow> race \<Rightarrow> race \<Rightarrow> comparison_result
   \<Rightarrow> world \<Rightarrow> (js_error + comparison_result) \<times> world" where
  "interactiveReview currentTestName chalk diffDir snapshotIdentifier receivedPath
     baselineSnapshotPath viewRace updateRace result w =
     (let w1 = emit (Notify ''Snapshot test failed!'' (''Received diff for '' @ currentTestName)) w;
          w2 = emit (StdoutWrite
                       (LF @ applyStyle chalk [bgCyan] (''Received difference for '' @ currentTestName)
                        @ LF)) w1;
          w3 = emit (PromptRun ''View Question'' ''Do you want to view the diff in your browser?'') w2
      in case viewRace of
           Rejected e \<Rightarrow> (Inl e, w3)
         | Answered True \<Rightarrow>
             updatePrompt snapshotIdentifier receivedPath baselineSnapshotPath updateRace result
               (emit (ChildExec (''open -a '' @ [CHR 0x22] @ ''Google Chrome file://'' @ diffDir
                                 @ ''/'' @ snapshotIdentifier @ ''-diff.png'')) w3)
         | _ \<Rightarrow>
             updatePrompt snapshotIdentifier receivedPath baselineSnapshotPath updateRace result
               (emit (PromptStop ''View Question'') w3))"

text \<open>
  Line 193, \<open>parseInt(global[Symbol.for('RETRY_TIMES')], 10) || 0\<close>, and lines 186 to 191, the
  level given to \<open>chalk\<close>: none when \<open>noColors\<close> is absent, so that \<open>chalk\<close> detects it.
\<close>

definition retryTimes_of :: "world \<Rightarrow> int" where
  "retryTimes_of w = (case RETRY_TIMES w of None \<Rightarrow> 0 | Some n \<Rightarrow> n)"

definition chalk_level :: "bool option \<Rightarrow> world \<Rightarrow> nat" where
  "chalk_level noColors w =
     (case noColors of None \<Rightarrow> detected_level w | Some nc \<Rightarrow> if nc then 0 else 1)"

text \<open>Lines 207 to 211: a directory is the custom one, or lies beside the test file.\<close>

definition directory :: "collaborators \<Rightarrow> string option \<Rightarrow> string \<Rightarrow> string \<Rightarrow> string \<Rightarrow> string" where
  "directory lib custom testPath role currentTestName =
     or_path custom
       (join lib [dirname lib testPath, role, kebabCase lib (describeName_of currentTestName)])"

text \<open>
  Lines 248 to 301, what the matcher does once the comparison has returned \<open>result\<close>: the
  guard on the received file, the review it opens, and \<open>checkResult\<close> on the result the review
  leaves.
\<close>

definition reviewAndCheck ::
  "string \<Rightarrow> nat \<Rightarrow> string \<Rightarrow> string \<Rightarrow> string \<Rightarrow> string \<Rightarrow> race \<Rightarrow> race \<Rightarrow> int \<Rightarrow> bool \<Rightarrow> bool
   \<Rightarrow> bool \<Rightarrow> comparison_result \<Rightarrow> snapshot_state \<Rightarrow> world
   \<Rightarrow> (js_error + verdict) \<times> snapshot_state \<times> world" where
  "reviewAndCheck currentTestName chalk diffDir snapshotIdentifier receivedPath
     baselineSnapshotPath viewRace updateRace retryTimes dumpDiffToConsole
     dumpInlineDiffToConsole allowSizeMismatch result snapshotState w =
     (if \<not> fs_syncExists w
      then (Inl (TypeError ''fs.syncExists is not a function''), snapshotState, w)
      else
        let reviewed =
              (if existsSync w receivedPath
               then interactiveReview currentTestName chalk diffDir snapshotIdentifier
                      receivedPath baselineSnapshotPath viewRace updateRace result w
               else (Inr result, w))
        in case fst reviewed of
             Inl e \<Rightarrow> (Inl e, snapshotState, snd reviewed)
           | Inr result' \<Rightarrow>
               (let checked =
                      checkResult (snd reviewed) result' snapshotState retryTimes
                        snapshotIdentifier chalk dumpDiffToConsole dumpInlineDiffToConsole
                        allowSizeMismatch
                in (Inr (fst checked), snd checked, snd reviewed)))"

text \<open>
  The body of the function \<open>configureToMatchImageSnapshot\<close> returns: the call of the matcher
  with the common configuration \<open>common\<close>, the context \<open>this\<close>, the received image, the options
  of the call, and the outcomes of the two races should the prompts be shown. It returns what
  the promise settles to (\<open>Inl\<close> when it rejects), the snapshot state and the process state it
  leaves.
\<close>

definition not_error :: js_error where
  "not_error = Error (''Jest: '' @ [CHR 0x60] @ ''.not'' @ [CHR 0x60] @ '' cannot be used with ''
                      @ [CHR 0x60] @ ''.toMatchImageSnapshot()'' @ [CHR 0x60] @ ''.'')"

definition matcher_call ::
  "collaborators \<Rightarrow> common_config \<Rightarrow> matcher_context \<Rightarrow> string \<Rightarrow> options \<Rightarrow> race \<Rightarrow> race \<Rightarrow> world
   \<Rightarrow> (js_error + verdict) \<times> snapshot_state \<times> world" where
  "matcher_call lib common this received opts viewRace updateRace w =
     (let customSnapshotIdentifier =
            or_else (opt_customSnapshotIdentifier opts) (commonCustomSnapshotIdentifier common);
          customSnapshotsDir = or_else (opt_customSnapshotsDir opts) (commonCustomSnapshotsDir common);
          storeReceivedOnFailure =
            default_to (opt_storeReceivedOnFailure opts) (commonStoreReceivedOnFailure common);
          customReceivedDir = or_else (opt_customReceivedDir opts) (commonCustomReceivedDir common);
          customReceivedPostfix =
            default_to (opt_customReceivedPostfix opts) (commonCustomReceivedPostfix common);
          customDiffDir = or_else (opt_customDiffDir opts) (commonCustomDiffDir common);
          onlyDiff = default_to (opt_onlyDiff opts) (commonOnlyDiff common);
          diffDirection = default_to (opt_diffDirection opts) (commonDiffDirection common);
          customDiffConfig = default_to (opt_customDiffConfig opts) Map.empty;
          noColors = or_else (opt_noColors opts) (commonNoColors common);
          failureThreshold = default_to (opt_failureThreshold opts) (commonFailureThreshold common);
          failureThresholdType =
            default_to (opt_failureThresholdType opts) (commonFailureThresholdType common);
          updatePassedSnapshot =
            default_to (opt_updatePassedSnapshot opts) (commonUpdatePassedSnapshot common);
          blur = default_to (opt_blur opts) (commonBlur common);
          runInProcess = default_to (opt_runInProcess opts) (commonRunInProcess common);
          dumpDiffToConsole = default_to (opt_dumpDiffToConsole opts) (commonDumpDiffToConsole common);
          dumpInlineDiffToConsole =
            default_to (opt_dumpInlineDiffToConsole opts) (commonDumpInlineDiffToConsole common);
          allowSizeMismatch = default_to (opt_allowSizeMismatch opts) (commonAllowSizeMismatch common);
          comparisonMethod = default_to (opt_comparisonMethod opts) (commonComparisonMethod common);
          testPath = this_testPath this;
          currentTestName = this_currentTestName this;
          snapshotState = this_snapshotState this;
          chalk = chalk_level noColors w;
          retryTimes = retryTimes_of w
      in if this_isNot this then (Inl not_error, snapshotState, w)
         else
           let counted = recordInvocation w snapshotState currentTestName
           in case createSnapshotIdentifier lib retryTimes testPath currentTestName
                     customSnapshotIdentifier counted w of
                Inl e \<Rightarrow> (Inl e, counted, w)
              | Inr (snapshotIdentifier, w1) \<Rightarrow>
                  let snapshotsDir =
                        directory lib customSnapshotsDir testPath SNAPSHOTS_DIR currentTestName;
                      receivedDir =
                        directory lib customReceivedDir testPath RECEIVED_DIR currentTestName;
                      diffDir = directory lib customDiffDir testPath DIFF_DIR currentTestName;
                      receivedPostfix = customReceivedPostfix;
                      baselineSnapshotPath = join lib [snapshotsDir, snapshotIdentifier @ ''.png''];
                      w2 = emit (MarkTouchedFile baselineSnapshotPath) w1
                  in if updateSnapshot counted = ''none'' \<and> \<not> existsSync w2 baselineSnapshotPath
                     then (Inr \<lparr>message = missing_baseline_message chalk, pass = False\<rparr>, counted, w2)
                     else
                       let imageToSnapshot =
                             (if runInProcess then diffImageToSnapshot lib
                              else runDiffImageToSnapshot lib);
                           request =
                             \<lparr>rq_receivedImageBuffer = received,
                              rq_snapshotsDir = snapshotsDir,
                              rq_storeReceivedOnFailure = storeReceivedOnFailure,
                              rq_receivedDir = receivedDir,
                              rq_receivedPostfix = receivedPostfix,
                              rq_diffDir = diffDir,
                              rq_diffDirection = diffDirection,
                              rq_onlyDiff = onlyDiff,
                              rq_snapshotIdentifier = snapshotIdentifier,
                              rq_updateSnapshot = (updateSnapshot counted = ''all''),
                              rq_customDiffConfig = commonCustomDiffConfig common ++ customDiffConfig,
                              rq_failureThreshold = failureThreshold,
                              rq_failureThresholdType = failureThresholdType,
                              rq_updatePassedSnapshot = updatePassedSnapshot,
                              rq_blur = blur,
                              rq_allowSizeMismatch = allowSizeMismatch,
                              rq_comparisonMethod = comparisonMethod\<rparr>;
                           outcome = imageToSnapshot request (files w2);
                           w3 = (emit (Compare runInProcess request) w2)\<lparr>files := snd outcome\<rparr>;
                           receivedPath =
                             join lib [receivedDir, snapshotIdentifier @ receivedPostfix @ ''.png'']
                       in case fst outcome of
                            Inl e \<Rightarrow> (Inl e, counted, w3)
                          | Inr result \<Rightarrow>
                              reviewAndCheck currentTestName chalk diffDir snapshotIdentifier
                                receivedPath baselineSnapshotPath viewRace updateRace retryTimes
                                dumpDiffToConsole dumpInlineDiffToConsole allowSizeMismatch result
                                counted w3)"

definition configureToMatchImageSnapshot ::
  "collaborators \<Rightarrow> options \<Rightarrow> matcher_context \<Rightarrow> string \<Rightarrow> options \<Rightarrow> race \<Rightarrow> race \<Rightarrow> world
   \<Rightarrow> (js_error + verdict) \<times> snapshot_state \<times> world" where
  "configureToMatchImageSnapshot lib commonOptions = matcher_call lib (common_defaults commonOptions)"

definition toMatchImageSnapshot ::
  "collaborators \<Rightarrow> matcher_context \<Rightarrow> string \<Rightarrow> options \<Rightarrow> race \<Rightarrow> race \<Rightarrow> world
   \<Rightarrow> (js_error + verdict) \<times> snapshot_state \<times> world" where
  "toMatchImageSnapshot lib = configureToMatchImageSnapshot lib no_options"

section \<open>Observations on a run\<close>

text \<open>
  The review is entered where the notification is sent, and the update prompt is reached where
  it is started: both are read off the log of effects. \<open>invoke n f w\<close> calls a message closure
  \<open>n\<close> times in a row and returns the texts and the state of the process at the end.
\<close>

fun is_notification :: "effect \<Rightarrow> bool" where
  "is_notification (Notify title body) = True"
| "is_notification e = False"

definition notifications :: "world \<Rightarrow> nat" where
  "notifications w = length (filter is_notification (effects w))"

fun is_update_prompt :: "effect \<Rightarrow> bool" where
  "is_update_prompt (PromptRun name question) = (name = ''Update Question'')"
| "is_update_prompt e = False"

definition update_prompts :: "world \<Rightarrow> nat" where
  "update_prompts w = length (filter is_update_prompt (effects w))"

text \<open>
  The effects of the review are all those of lines 250 to 289: every effect but the touched
  baseline and the comparison. \<open>renames\<close> counts the files renamed.
\<close>

fun is_review_effect :: "effect \<Rightarrow> bool" where
  "is_review_effect (MarkTouchedFile path) = False"
| "is_review_effect (Compare inProcess request) = False"
| "is_review_effect e = True"

definition review_effects :: "world \<Rightarrow> effect list" where
  "review_effects w = filter is_review_effect (effects w)"

fun is_rename :: "effect \<Rightarrow> bool" where
  "is_rename (RenameSync oldPath newPath) = True"
| "is_rename e = False"

definition renames :: "world \<Rightarrow> nat" where
  "renames w = length (filter is_rename (effects w))"


section \<open>Sample inputs\<close>

text \<open>
  Concrete inputs for the instances evaluated below: a fresh snapshot state in update mode
  \<open>none\<close>, a process with nothing set and no file, a failing comparison of ratio \<open>0.023\<close> with 45
  differing pixels, and collaborators that leave names as they are and join paths with \<open>/\<close>.
\<close>

definition sample_state :: snapshot_state where
  "sample_state =
     \<lparr>matched = 0, added = 0, updated = 0, unmatched = 0, counters = Map.empty,
      updateSnapshot = ''none''\<rparr>"

definition sample_world :: world where
  "sample_world =
     \<lparr>UNSTABLE_SKIP_REPORTING = False, RETRY_TIMES = None, timesCalled = Map.empty,
      files = Map.empty, fs_syncExists = False, process_env = Map.empty, detected_level = 0,
      effects = []\<rparr>"

definition sample_failure :: compared where
  "sample_failure =
     \<lparr>result_pass = False, diffRatio = js_literal 23 (- 3), diffPixelCount = 45, diffSize = False,
      imageDimensions =
        \<lparr>baselineWidth = 800, baselineHeight = 600, receivedWidth = 800, receivedHeight = 600\<rparr>,
      diffOutputPath = ''diff/renders-snap-diff.png'',
      imgSrcString = ''data:image/png;base64,iVBORw0KGgo=''\<rparr>"

definition slash_join :: "string list \<Rightarrow> string" where
  "slash_join parts = foldr (\<lambda>a b. if b = [] then a else a @ ''/'' @ b) parts []"

definition sample_lib :: "engine \<Rightarrow> collaborators" where
  "sample_lib engine =
     \<lparr>kebabCase = (\<lambda>s. s), basename = (\<lambda>p. p), dirname = (\<lambda>p. ''tests''), join = slash_join,
      diffImageToSnapshot = engine, runDiffImageToSnapshot = engine\<rparr>"

text \<open>
  An engine that finds no baseline, writes the received image as the baseline and reports
  \<open>Added\<close>; and one that reports the failing comparison above and stores the received image.
\<close>

definition adding_engine :: engine where
  "adding_engine request fs =
     (Inr Added,
      fs(slash_join [rq_snapshotsDir request, rq_snapshotIdentifier request @ ''.png'']
           \<mapsto> rq_receivedImageBuffer request))"

definition failing_engine :: engine where
  "failing_engine request fs =
     (Inr (Compared sample_failure),
      fs(slash_join [rq_receivedDir request,
                     rq_snapshotIdentifier request @ rq_receivedPostfix request @ ''.png'']
           \<mapsto> rq_receivedImageBuffer request))"

definition sample_this :: matcher_context where
  "sample_this =
     \<lparr>this_testPath = ''tests/page.spec.js'', this_currentTestName = ''page...renders'',
      this_isNot = False, this_snapshotState = sample_state\<rparr>"

section \<open>Auxiliary facts\<close>

subsection \<open>State updates and resolution\<close>

lemma merge_simps:
  "merge st (no_members\<lparr>set_unmatched := Some n\<rparr>) = st\<lparr>unmatched := n\<rparr>"
  "merge st (no_members\<lparr>set_matched := Some n\<rparr>) = st\<lparr>matched := n\<rparr>"
  "merge st (no_members\<lparr>set_added := Some n\<rparr>) = st\<lparr>added := n\<rparr>"
  "merge st (no_members\<lparr>set_updated := Some n\<rparr>) = st\<lparr>updated := n\<rparr>"
  "merge st (no_members\<lparr>set_counters := Some m\<rparr>) = st\<lparr>counters := m\<rparr>"
  by (simp_all add: merge_def no_members_def)

lemma matcher_call_resolution_error:
  assumes "\<not> this_isNot this"
    and "createSnapshotIdentifier lib (retryTimes_of w) (this_testPath this)
           (this_currentTestName this)
           (or_else (opt_customSnapshotIdentifier opts) (commonCustomSnapshotIdentifier common))
           (recordInvocation w (this_snapshotState this) (this_currentTestName this)) w = Inl e"
  shows "matcher_call lib common this received opts viewRace updateRace w =
           (Inl e, recordInvocation w (this_snapshotState this) (this_currentTestName this), w)"
  using assms by (simp add: matcher_call_def Let_def)

subsection \<open>Strings and styling\<close>

lemma js_includes_prefix: "js_includes (sub @ post) sub"
proof (cases "sub @ post")
  case Nil
  then show ?thesis by simp
next
  case (Cons a list)
  have "take (length sub) (a # list) = sub"
    using Cons [symmetric] by simp
  then show ?thesis
    by (simp add: Cons)
qed

lemma js_includes_append: "js_includes (pre @ sub @ post) sub"
  by (induction pre) (auto simp: js_includes_prefix)

lemma encase_lines_plain:
  "CHR 0x0A \<notin> set s \<Longrightarrow> CHR 0x0D \<notin> set s \<Longrightarrow> encase_lines pre post s = s"
  by (induction s) auto

lemma applyStyle_plain:
  assumes "CHR 0x1B \<notin> set s" "CHR 0x0A \<notin> set s" "CHR 0x0D \<notin> set s"
  shows "applyStyle level chain s =
           (if level = 0 \<or> s = [] then s
            else concat (map fst chain) @ s @ concat (map snd (rev chain)))"
  using assms by (simp add: applyStyle_def reopen_def encase_lines_plain)

lemma missing_baseline_message_text:
  "js_includes (fst (missing_baseline_message chalk w)) ''not written''
   \<and> js_includes (fst (missing_baseline_message chalk w)) ''continuous integration''
   \<and> snd (missing_baseline_message chalk w) = w"
proof -
  have styled: "applyStyle chalk [bold, red] ''not written'' =
          (if chalk = 0 then [] else fst bold @ fst red) @ ''not written''
          @ (if chalk = 0 then [] else snd red @ snd bold)"
    by (simp add: applyStyle_plain)
  have one: "fst (missing_baseline_message chalk w) =
      (''New snapshot was '' @ (if chalk = 0 then [] else fst bold @ fst red)) @ ''not written''
      @ ((if chalk = 0 then [] else snd red @ snd bold)
         @ ''. The update flag must be explicitly passed to write a new snapshot.'' @ LF @ LF
         @ '' + This is likely because this test is run in a continuous integration (CI) environment in which snapshots are not written by default.'' @ LF @ LF)"
    unfolding missing_baseline_message_def styled by simp
  have two: "fst (missing_baseline_message chalk w) =
      (''New snapshot was '' @ applyStyle chalk [bold, red] ''not written''
         @ ''. The update flag must be explicitly passed to write a new snapshot.'' @ LF @ LF
         @ '' + This is likely because this test is run in a '') @ ''continuous integration''
      @ ('' (CI) environment in which snapshots are not written by default.'' @ LF @ LF)"
    unfolding missing_baseline_message_def by simp
  have "js_includes (fst (missing_baseline_message chalk w)) ''not written''"
    by (subst one) (rule js_includes_append)
  moreover have "js_includes (fst (missing_baseline_message chalk w)) ''continuous integration''"
    by (subst two) (rule js_includes_append)
  ultimately show ?thesis
    by (simp add: missing_baseline_message_def)
qed

subsection \<open>What a resolution and a recorded invocation change\<close>

lemma createSnapshotIdentifier_frame:
  assumes "createSnapshotIdentifier lib retryTimes testPath name custom st w = Inr (snapshotIdentifier, w1)"
  shows "files w1 = files w \<and> effects w1 = effects w
         \<and> UNSTABLE_SKIP_REPORTING w1 = UNSTABLE_SKIP_REPORTING w
         \<and> RETRY_TIMES w1 = RETRY_TIMES w \<and> fs_syncExists w1 = fs_syncExists w
         \<and> process_env w1 = process_env w \<and> detected_level w1 = detected_level w
         \<and> timesCalled w1 =
              (if retryTimes = 0 then timesCalled w
               else (timesCalled w)(snapshotIdentifier \<mapsto> attempts w snapshotIdentifier + 1))"
  using assms
  by (auto simp add: createSnapshotIdentifier_def register_def count_call_def Let_def
        split: option.splits custom_identifier.splits if_splits)

lemma recordInvocation_eq:
  "recordInvocation w st name =
     st\<lparr>counters := (counters st)(name \<mapsto> (case counters st name of None \<Rightarrow> 0 | Some n \<Rightarrow> n) + 1)\<rparr>"
  by (simp add: recordInvocation_def updateSnapshotState_def merge_simps Let_def)

subsection \<open>Effects and the review\<close>

lemma notifications_emit [simp]:
  "notifications (emit e w) = notifications w + (if is_notification e then 1 else 0)"
  by (simp add: notifications_def emit_def)

lemma update_prompts_emit [simp]:
  "update_prompts (emit e w) = update_prompts w + (if is_update_prompt e then 1 else 0)"
  by (simp add: update_prompts_def emit_def)

lemma checkResult_reads:
  assumes "UNSTABLE_SKIP_REPORTING w1 = UNSTABLE_SKIP_REPORTING w2"
    and "timesCalled w1 = timesCalled w2"
  shows "checkResult w1 result st retryTimes snapshotIdentifier chalk dd di asm =
         checkResult w2 result st retryTimes snapshotIdentifier chalk dd di asm"
  using assms by (cases result) (simp_all add: checkResult_def updateSnapshotState_def)

text \<open>
  The guard of line 248 is the call \<open>fs.syncExists(...)\<close>. Where the \<open>fs\<close> module has no such
  member, as the one of Node.js, the call throws: the matcher rejects with a \<open>TypeError\<close>
  after every comparison that returned, before the review and before \<open>checkResult\<close>.
\<close>

lemma reviewAndCheck_stock_fs:
  assumes "\<not> fs_syncExists w"
  shows "reviewAndCheck name chalk diffDir snapshotIdentifier receivedPath baselinePath viewRace
           updateRace retryTimes dd di asm result st w
         = (Inl (TypeError ''fs.syncExists is not a function''), st, w)"
  using assms by (simp add: reviewAndCheck_def)

lemma update_prompt_reached:
  assumes "update_prompts w <
           update_prompts (snd (snd (reviewAndCheck name chalk diffDir snapshotIdentifier
             receivedPath baselinePath viewRace updateRace retryTimes dd di asm result st w)))"
  shows "fs_syncExists w \<and> files w receivedPath \<noteq> None \<and> (\<forall>e. viewRace \<noteq> Rejected e)"
proof -
  have a: "fs_syncExists w"
    using assms by (auto simp add: reviewAndCheck_def split: if_splits)
  have b: "files w receivedPath \<noteq> None"
    using assms a by (auto simp add: reviewAndCheck_def Let_def existsSync_def split: if_splits)
  have c: "\<forall>e. viewRace \<noteq> Rejected e"
    using assms a b
    by (auto simp add: reviewAndCheck_def Let_def existsSync_def interactiveReview_def
          split: if_splits)
  show ?thesis using a b c by simp
qed

lemma emit_frame [simp]:
  "files (emit e w) = files w"
  "timesCalled (emit e w) = timesCalled w"
  "UNSTABLE_SKIP_REPORTING (emit e w) = UNSTABLE_SKIP_REPORTING w"
  "RETRY_TIMES (emit e w) = RETRY_TIMES w"
  "fs_syncExists (emit e w) = fs_syncExists w"
  "process_env (emit e w) = process_env w"
  "detected_level (emit e w) = detected_level w"
  "effects (emit e w) = effects w @ [e]"
  by (simp_all add: emit_def)

lemma updatePrompt_confirmed:
  assumes "files w receivedPath = Some bytes"
  shows "updatePrompt snapshotIdentifier receivedPath baselinePath (Answered True) result w =
           (Inr Updated,
            emit (RenameSync receivedPath baselinePath)
              ((emit (PromptRun ''Update Question''
                        (''Do you want to update '' @ snapshotIdentifier @ ''?'')) w)
               \<lparr>files := ((files w)(receivedPath := None))(baselinePath \<mapsto> bytes)\<rparr>))"
  using assms by (simp add: updatePrompt_def renameSync_def Let_def)

lemma updatePrompt_declined:
  assumes "updateRace = Answered False \<or> updateRace = TimedOut"
  shows "updatePrompt snapshotIdentifier receivedPath baselinePath updateRace result w =
           (Inr result,
            emit (PromptStop ''Update Question'')
              (emit (PromptRun ''Update Question''
                       (''Do you want to update '' @ snapshotIdentifier @ ''?'')) w))"
  using assms by (auto simp add: updatePrompt_def Let_def)

lemma interactiveReview_settled:
  assumes "\<forall>e. viewRace \<noteq> Rejected e"
  obtains wv where
    "interactiveReview name chalk diffDir snapshotIdentifier receivedPath baselinePath viewRace
       updateRace result w
     = updatePrompt snapshotIdentifier receivedPath baselinePath updateRace result wv"
    and "files wv = files w" and "timesCalled wv = timesCalled w"
    and "UNSTABLE_SKIP_REPORTING wv = UNSTABLE_SKIP_REPORTING w"
proof (cases viewRace)
  case (Answered b)
  then show ?thesis
    by (cases b) (auto simp add: interactiveReview_def Let_def intro!: that)
next
  case TimedOut
  then show ?thesis
    by (auto simp add: interactiveReview_def Let_def intro!: that)
next
  case (Rejected e)
  with assms show ?thesis by simp
qed

subsection \<open>A matcher call, case by case\<close>

text \<open>
  A call of the matcher ends in one of four ways: it is negated and throws; the identifier is
  not resolved and the call throws; the baseline is missing in update mode \<open>none\<close> and the
  failing verdict of lines 217 to 222 is returned; or the comparison is run, and then either
  the comparison throws or lines 248 to 301 decide.
\<close>

lemma matcher_call_cases:
  obtains
    (negated) "this_isNot this"
      "matcher_call lib common this received opts viewRace updateRace w
         = (Inl not_error, this_snapshotState this, w)"
  | (unresolved) e where
      "matcher_call lib common this received opts viewRace updateRace w
         = (Inl e, recordInvocation w (this_snapshotState this) (this_currentTestName this), w)"
  | (missing) snapshotIdentifier w1 baselinePath where
      "createSnapshotIdentifier lib (retryTimes_of w) (this_testPath this)
         (this_currentTestName this)
         (or_else (opt_customSnapshotIdentifier opts) (commonCustomSnapshotIdentifier common))
         (recordInvocation w (this_snapshotState this) (this_currentTestName this)) w
       = Inr (snapshotIdentifier, w1)"
      "matcher_call lib common this received opts viewRace updateRace w
         = (Inr \<lparr>message = missing_baseline_message
                              (chalk_level (or_else (opt_noColors opts) (commonNoColors common)) w),
                 pass = False\<rparr>,
            recordInvocation w (this_snapshotState this) (this_currentTestName this),
            emit (MarkTouchedFile baselinePath) w1)"
  | (compared) snapshotIdentifier w1 baselinePath inProcess request outcome where
      "createSnapshotIdentifier lib (retryTimes_of w) (this_testPath this)
         (this_currentTestName this)
         (or_else (opt_customSnapshotIdentifier opts) (commonCustomSnapshotIdentifier common))
         (recordInvocation w (this_snapshotState this) (this_currentTestName this)) w
       = Inr (snapshotIdentifier, w1)"
      "outcome = (if inProcess then diffImageToSnapshot lib else runDiffImageToSnapshot lib)
                   request (files w)"
      "rq_receivedImageBuffer request = received"
      "rq_snapshotIdentifier request = snapshotIdentifier"
      "matcher_call lib common this received opts viewRace updateRace w
         = (case fst outcome of
              Inl e \<Rightarrow>
                (Inl e, recordInvocation w (this_snapshotState this) (this_currentTestName this),
                 (emit (Compare inProcess request) (emit (MarkTouchedFile baselinePath) w1))
                 \<lparr>files := snd outcome\<rparr>)
            | Inr result \<Rightarrow>
                reviewAndCheck (this_currentTestName this)
                  (chalk_level (or_else (opt_noColors opts) (commonNoColors common)) w)
                  (directory lib (or_else (opt_customDiffDir opts) (commonCustomDiffDir common))
                     (this_testPath this) DIFF_DIR (this_currentTestName this))
                  snapshotIdentifier
                  (join lib [rq_receivedDir request,
                             snapshotIdentifier @ rq_receivedPostfix request @ ''.png''])
                  baselinePath viewRace updateRace (retryTimes_of w)
                  (default_to (opt_dumpDiffToConsole opts) (commonDumpDiffToConsole common))
                  (default_to (opt_dumpInlineDiffToConsole opts)
                     (commonDumpInlineDiffToConsole common))
                  (default_to (opt_allowSizeMismatch opts) (commonAllowSizeMismatch common))
                  result
                  (recordInvocation w (this_snapshotState this) (this_currentTestName this))
                  ((emit (Compare inProcess request) (emit (MarkTouchedFile baselinePath) w1))
                   \<lparr>files := snd outcome\<rparr>))"
proof (cases "this_isNot this")
  case True
  then show ?thesis by (intro negated) (simp_all add: matcher_call_def Let_def)
next
  case False
  show ?thesis
  proof (cases "createSnapshotIdentifier lib (retryTimes_of w) (this_testPath this)
           (this_currentTestName this)
           (or_else (opt_customSnapshotIdentifier opts) (commonCustomSnapshotIdentifier common))
           (recordInvocation w (this_snapshotState this) (this_currentTestName this)) w")
    case (Inl e)
    from matcher_call_resolution_error [OF False Inl] show ?thesis by (rule unresolved)
  next
    case (Inr p)
    obtain snapshotIdentifier w1 where p: "p = (snapshotIdentifier, w1)" by (cases p)
    note resolved = Inr [unfolded p]
    note frame = createSnapshotIdentifier_frame [OF resolved]
    have same: "files w1 = files w" using frame by simp
    define request where
      "request =
         \<lparr>rq_receivedImageBuffer = received,
          rq_snapshotsDir =
            directory lib (or_else (opt_customSnapshotsDir opts) (commonCustomSnapshotsDir common))
              (this_testPath this) SNAPSHOTS_DIR (this_currentTestName this),
          rq_storeReceivedOnFailure =
            default_to (opt_storeReceivedOnFailure opts) (commonStoreReceivedOnFailure common),
          rq_receivedDir =
            directory lib (or_else (opt_customReceivedDir opts) (commonCustomReceivedDir common))
              (this_testPath this) RECEIVED_DIR (this_currentTestName this),
          rq_receivedPostfix =
            default_to (opt_customReceivedPostfix opts) (commonCustomReceivedPostfix common),
          rq_diffDir =
            directory lib (or_else (opt_customDiffDir opts) (commonCustomDiffDir common))
              (this_testPath this) DIFF_DIR (this_currentTestName this),
          rq_diffDirection = default_to (opt_diffDirection opts) (commonDiffDirection common),
          rq_onlyDiff = default_to (opt_onlyDiff opts) (commonOnlyDiff common),
          rq_snapshotIdentifier = snapshotIdentifier,
          rq_updateSnapshot =
            (updateSnapshot (recordInvocation w (this_snapshotState this)
                               (this_currentTestName this)) = ''all''),
          rq_customDiffConfig =
            commonCustomDiffConfig common ++ default_to (opt_customDiffConfig opts) Map.empty,
          rq_failureThreshold =
            default_to (opt_failureThreshold opts) (commonFailureThreshold common),
          rq_failureThresholdType =
            default_to (opt_failureThresholdType opts) (commonFailureThresholdType common),
          rq_updatePassedSnapshot =
            default_to (opt_updatePassedSnapshot opts) (commonUpdatePassedSnapshot common),
          rq_blur = default_to (opt_blur opts) (commonBlur common),
          rq_allowSizeMismatch =
            default_to (opt_allowSizeMismatch opts) (commonAllowSizeMismatch common),
          rq_comparisonMethod =
            default_to (opt_comparisonMethod opts) (commonComparisonMethod common)\<rparr>"
    define inProcess where
      "inProcess = default_to (opt_runInProcess opts) (commonRunInProcess common)"
    define baselinePath where
      "baselinePath = join lib [directory lib
          (or_else (opt_customSnapshotsDir opts) (commonCustomSnapshotsDir common))
          (this_testPath this) SNAPSHOTS_DIR (this_currentTestName this),
        snapshotIdentifier @ ''.png'']"
    define outcome where
      "outcome = (if inProcess then diffImageToSnapshot lib else runDiffImageToSnapshot lib)
                   request (files w)"
    have fields: "rq_receivedImageBuffer request = received"
      "rq_snapshotIdentifier request = snapshotIdentifier"
      by (simp_all add: request_def)
    have shape:
      "matcher_call lib common this received opts viewRace updateRace w =
         (if updateSnapshot (recordInvocation w (this_snapshotState this)
               (this_currentTestName this)) = ''none'' \<and> files w baselinePath = None
          then (Inr \<lparr>message = missing_baseline_message
                              (chalk_level (or_else (opt_noColors opts) (commonNoColors common)) w),
                 pass = False\<rparr>,
                recordInvocation w (this_snapshotState this) (this_currentTestName this),
                emit (MarkTouchedFile baselinePath) w1)
          else case fst outcome of
              Inl e \<Rightarrow>
                (Inl e, recordInvocation w (this_snapshotState this) (this_currentTestName this),
                 (emit (Compare inProcess request) (emit (MarkTouchedFile baselinePath) w1))
                 \<lparr>files := snd outcome\<rparr>)
            | Inr result \<Rightarrow>
                reviewAndCheck (this_currentTestName this)
                  (chalk_level (or_else (opt_noColors opts) (commonNoColors common)) w)
                  (directory lib (or_else (opt_customDiffDir opts) (commonCustomDiffDir common))
                     (this_testPath this) DIFF_DIR (this_currentTestName this))
                  snapshotIdentifier
                  (join lib [rq_receivedDir request,
                             snapshotIdentifier @ rq_receivedPostfix request @ ''.png''])
                  baselinePath viewRace updateRace (retryTimes_of w)
                  (default_to (opt_dumpDiffToConsole opts) (commonDumpDiffToConsole common))
                  (default_to (opt_dumpInlineDiffToConsole opts)
                     (commonDumpInlineDiffToConsole common))
                  (default_to (opt_allowSizeMismatch opts) (commonAllowSizeMismatch common))
                  result
                  (recordInvocation w (this_snapshotState this) (this_currentTestName this))
                  ((emit (Compare inProcess request) (emit (MarkTouchedFile baselinePath) w1))
                   \<lparr>files := snd outcome\<rparr>))"
      using False resolved same
      unfolding outcome_def baselinePath_def inProcess_def request_def
      by (simp add: matcher_call_def Let_def existsSync_def split: sum.split)
    show ?thesis
    proof (cases "updateSnapshot (recordInvocation w (this_snapshotState this)
               (this_currentTestName this)) = ''none'' \<and> files w baselinePath = None")
      case True
      show ?thesis
        by (rule missing [OF resolved, where baselinePath = baselinePath])
           (simp only: shape if_P [OF True])
    next
      case noreturn: False
      show ?thesis
        by (rule compared [OF resolved outcome_def fields, where baselinePath = baselinePath])
           (simp only: shape if_not_P [OF noreturn])
    qed
  qed
qed

subsection \<open>A matcher call with the \<open>fs\<close> module of Node.js\<close>

text \<open>
  Where \<open>fs\<close> has no member \<open>syncExists\<close>, a call leaves the snapshot state as it was handed
  in (a negated call) or as the recorded invocation left it; nothing of lines 250 to 289 takes
  place; and the only verdict a call returns is the one of the missing baseline.
\<close>

lemma matcher_call_stock_fs:
  fixes lib :: collaborators and common :: common_config and this :: matcher_context
    and received :: string and opts :: options and viewRace updateRace :: race and w :: world
  defines "M \<equiv> matcher_call lib common this received opts viewRace updateRace w"
  assumes "\<not> fs_syncExists w"
  shows "fst (snd M) = this_snapshotState this
         \<or> fst (snd M) = recordInvocation w (this_snapshotState this) (this_currentTestName this)"
    and "review_effects (snd (snd M)) = review_effects w"
    and "fst M = Inr v \<Longrightarrow>
           v = \<lparr>message = missing_baseline_message
                              (chalk_level (or_else (opt_noColors opts) (commonNoColors common)) w),
                 pass = False\<rparr>"
proof -
  have "(fst (snd M) = this_snapshotState this
         \<or> fst (snd M) = recordInvocation w (this_snapshotState this) (this_currentTestName this))
        \<and> review_effects (snd (snd M)) = review_effects w
        \<and> (fst M = Inr v \<longrightarrow>
           v = \<lparr>message = missing_baseline_message
                              (chalk_level (or_else (opt_noColors opts) (commonNoColors common)) w),
                 pass = False\<rparr>)"
  proof (rule matcher_call_cases [of this lib common received opts viewRace updateRace w])
    assume "matcher_call lib common this received opts viewRace updateRace w
         = (Inl not_error, this_snapshotState this, w)"
    then show ?thesis unfolding M_def by simp
  next
    fix e
    assume "matcher_call lib common this received opts viewRace updateRace w
         = (Inl e, recordInvocation w (this_snapshotState this) (this_currentTestName this), w)"
    then show ?thesis unfolding M_def by simp
  next
    fix snapshotIdentifier w1 baselinePath
    assume r: "createSnapshotIdentifier lib (retryTimes_of w) (this_testPath this)
         (this_currentTestName this)
         (or_else (opt_customSnapshotIdentifier opts) (commonCustomSnapshotIdentifier common))
         (recordInvocation w (this_snapshotState this) (this_currentTestName this)) w
       = Inr (snapshotIdentifier, w1)"
      and m: "matcher_call lib common this received opts viewRace updateRace w
         = (Inr \<lparr>message = missing_baseline_message
                              (chalk_level (or_else (opt_noColors opts) (commonNoColors common)) w),
                 pass = False\<rparr>,
            recordInvocation w (this_snapshotState this) (this_currentTestName this),
            emit (MarkTouchedFile baselinePath) w1)"
    note frame = createSnapshotIdentifier_frame [OF r]
    show ?thesis unfolding M_def m using frame by (auto simp add: review_effects_def)
  next
    fix snapshotIdentifier w1 baselinePath inProcess request outcome
    assume r: "createSnapshotIdentifier lib (retryTimes_of w) (this_testPath this)
         (this_currentTestName this)
         (or_else (opt_customSnapshotIdentifier opts) (commonCustomSnapshotIdentifier common))
         (recordInvocation w (this_snapshotState this) (this_currentTestName this)) w
       = Inr (snapshotIdentifier, w1)"
      and m: "matcher_call lib common this received opts viewRace updateRace w
         = (case fst outcome of
              Inl e \<Rightarrow>
                (Inl e, recordInvocation w (this_snapshotState this) (this_currentTestName this),
                 (emit (Compare inProcess request) (emit (MarkTouchedFile baselinePath) w1))
                 \<lparr>files := snd outcome\<rparr>)
            | Inr result \<Rightarrow>
                reviewAndCheck (this_currentTestName this)
                  (chalk_level (or_else (opt_noColors opts) (commonNoColors common)) w)
                  (directory lib (or_else (opt_customDiffDir opts) (commonCustomDiffDir common))
                     (this_testPath this) DIFF_DIR (this_currentTestName this))
                  snapshotIdentifier
                  (join lib [rq_receivedDir request,
                             snapshotIdentifier @ rq_receivedPostfix request @ ''.png''])
                  baselinePath viewRace updateRace (retryTimes_of w)
                  (default_to (opt_dumpDiffToConsole opts) (commonDumpDiffToConsole common))
                  (default_to (opt_dumpInlineDiffToConsole opts)
                     (commonDumpInlineDiffToConsole common))
                  (default_to (opt_allowSizeMismatch opts) (commonAllowSizeMismatch common))
                  result
                  (recordInvocation w (this_snapshotState this) (this_currentTestName this))
                  ((emit (Compare inProcess request) (emit (MarkTouchedFile baselinePath) w1))
                   \<lparr>files := snd outcome\<rparr>))"
    note frame = createSnapshotIdentifier_frame [OF r]
    have stock: "\<not> fs_syncExists ((emit (Compare inProcess request)
                    (emit (MarkTouchedFile baselinePath) w1))\<lparr>files := snd outcome\<rparr>)"
      using assms(2) frame by simp
    show ?thesis unfolding M_def m using frame
      by (cases "fst outcome")
         (auto simp add: review_effects_def reviewAndCheck_stock_fs [OF stock])
  qed
  then show "fst (snd M) = this_snapshotState this
         \<or> fst (snd M) = recordInvocation w (this_snapshotState this) (this_currentTestName this)"
    and "review_effects (snd (snd M)) = review_effects w"
    and "fst M = Inr v \<Longrightarrow>
           v = \<lparr>message = missing_baseline_message
                              (chalk_level (or_else (opt_noColors opts) (commonNoColors common)) w),
                 pass = False\<rparr>"
    by simp_all
qed


lemma update_prompts_review:
  "update_prompts w = length (filter is_update_prompt (review_effects w))"
  unfolding update_prompts_def review_effects_def filter_filter
  by (rule arg_cong [where f = length], rule filter_cong) (auto elim: is_update_prompt.elims)

lemma renames_review: "renames w = length (filter is_rename (review_effects w))"
  unfolding renames_def review_effects_def filter_filter
  by (rule arg_cong [where f = length], rule filter_cong) (auto elim: is_rename.elims)

subsection \<open>Evaluation\<close>

text \<open>The definitions unfolded to evaluate a call on the sample inputs.\<close>

lemmas sample_defs = sample_state_def sample_world_def sample_failure_def sample_lib_def
  sample_this_def slash_join_def adding_engine_def failing_engine_def

lemmas matcher_defs = toMatchImageSnapshot_def configureToMatchImageSnapshot_def matcher_call_def
  common_defaults_def no_options_def default_to_def or_else_def recordInvocation_def
  updateSnapshotState_def createSnapshotIdentifier_def register_def js_split_def js_index_def
  template_string_def describeName_of_def or_path_def directory_def SNAPSHOTS_DIR_def
  RECEIVED_DIR_def DIFF_DIR_def existsSync_def retryTimes_of_def chalk_level_def Let_def
  merge_simps

lemmas review_defs = reviewAndCheck_def interactiveReview_def updatePrompt_def renameSync_def
  existsSync_def Let_def

subsection \<open>Numbers\<close>














subsection \<open>Message closures\<close>








subsection \<open>The ledger across a call\<close>

text \<open>The review and the check leave \<open>timesCalled\<close> and the retry count as they are.\<close>

lemma updatePrompt_globals:
  "timesCalled (snd (updatePrompt snapshotIdentifier receivedPath baselinePath updateRace result w))
     = timesCalled w
   \<and> RETRY_TIMES (snd (updatePrompt snapshotIdentifier receivedPath baselinePath updateRace result w))
     = RETRY_TIMES w"
  by (cases updateRace)
     (auto simp add: updatePrompt_def renameSync_def Let_def split: option.splits bool.splits)

lemma interactiveReview_globals:
  "timesCalled (snd (interactiveReview name chalk diffDir snapshotIdentifier receivedPath
                       baselinePath viewRace updateRace result w)) = timesCalled w
   \<and> RETRY_TIMES (snd (interactiveReview name chalk diffDir snapshotIdentifier receivedPath
                       baselinePath viewRace updateRace result w)) = RETRY_TIMES w"
  by (cases viewRace)
     (auto simp add: interactiveReview_def Let_def updatePrompt_globals split: bool.splits)

lemma reviewAndCheck_globals:
  "timesCalled (snd (snd (reviewAndCheck name chalk diffDir snapshotIdentifier receivedPath
                       baselinePath viewRace updateRace retryTimes dd di asm result st w)))
     = timesCalled w
   \<and> RETRY_TIMES (snd (snd (reviewAndCheck name chalk diffDir snapshotIdentifier receivedPath
                       baselinePath viewRace updateRace retryTimes dd di asm result st w)))
     = RETRY_TIMES w"
  by (auto simp add: reviewAndCheck_def Let_def interactiveReview_globals split: sum.splits)

lemma matcher_call_globals:
  fixes lib :: collaborators and common :: common_config and this :: matcher_context
    and received :: string and opts :: options and viewRace updateRace :: race and w :: world
  defines "M \<equiv> matcher_call lib common this received opts viewRace updateRace w"
  defines "resolved \<equiv> createSnapshotIdentifier lib (retryTimes_of w) (this_testPath this)
           (this_currentTestName this)
           (or_else (opt_customSnapshotIdentifier opts) (commonCustomSnapshotIdentifier common))
           (recordInvocation w (this_snapshotState this) (this_currentTestName this)) w"
  shows "RETRY_TIMES (snd (snd M)) = RETRY_TIMES w
       \<and> timesCalled (snd (snd M)) =
           (if this_isNot this then timesCalled w
            else case resolved of Inl e \<Rightarrow> timesCalled w | Inr p \<Rightarrow> timesCalled (snd p))"
proof (cases "this_isNot this")
  case True
  then show ?thesis unfolding M_def by (simp add: matcher_call_def Let_def)
next
  case False
  show ?thesis
  proof (cases resolved)
    case (Inl e)
    from matcher_call_resolution_error [OF False Inl [unfolded resolved_def]]
    show ?thesis unfolding M_def using False Inl by simp
  next
    case (Inr p)
    obtain snapshotIdentifier w1 where p: "p = (snapshotIdentifier, w1)" by (cases p)
    note frame = createSnapshotIdentifier_frame [OF Inr [unfolded resolved_def p]]
    have "RETRY_TIMES (snd (snd M)) = RETRY_TIMES w1 \<and> timesCalled (snd (snd M)) = timesCalled w1"
      unfolding M_def using False Inr [unfolded resolved_def p]
      by (simp add: matcher_call_def Let_def reviewAndCheck_globals split: sum.split)
    then show ?thesis using False Inr p frame by simp
  qed
qed

lemma matcher_call_ledger_cases:
  obtains "timesCalled (snd (snd (matcher_call lib common this received opts viewRace updateRace w)))
             = timesCalled w"
  | snapshotIdentifier where
      "timesCalled (snd (snd (matcher_call lib common this received opts viewRace updateRace w)))
         = (timesCalled w)(snapshotIdentifier \<mapsto> attempts w snapshotIdentifier + 1)"
proof (cases "createSnapshotIdentifier lib (retryTimes_of w) (this_testPath this)
           (this_currentTestName this)
           (or_else (opt_customSnapshotIdentifier opts) (commonCustomSnapshotIdentifier common))
           (recordInvocation w (this_snapshotState this) (this_currentTestName this)) w")
  case (Inl e)
  then show ?thesis
    using matcher_call_globals [of lib common this received opts viewRace updateRace w]
    by (intro that(1)) simp
next
  case (Inr p)
  obtain snapshotIdentifier w1 where p: "p = (snapshotIdentifier, w1)" by (cases p)
  note frame = createSnapshotIdentifier_frame [OF Inr [unfolded p]]
  show ?thesis
  proof (cases "this_isNot this \<or> retryTimes_of w = 0")
    case True
    then show ?thesis
      using matcher_call_globals [of lib common this received opts viewRace updateRace w] Inr p frame
      by (intro that(1)) auto
  next
    case False
    then show ?thesis
      using matcher_call_globals [of lib common this received opts viewRace updateRace w] Inr p frame
      by (intro that(2) [of snapshotIdentifier]) auto
  qed
qed

lemma matcher_call_attempts:
  "attempts w k \<le> attempts (snd (snd (matcher_call lib common this received opts viewRace updateRace w))) k"
  by (rule matcher_call_ledger_cases [of lib common this received opts viewRace updateRace w])
     (simp_all add: attempts_def)

lemma matcher_call_keeps_entries:
  assumes "timesCalled w k \<noteq> None"
  shows "timesCalled (snd (snd (matcher_call lib common this received opts viewRace updateRace w))) k
           \<noteq> None"
  using assms
  by (rule_tac matcher_call_ledger_cases [of lib common this received opts viewRace updateRace w])
     simp_all

lemma matcher_call_counts_literal:
  assumes "RETRY_TIMES w = Some r" "r \<noteq> 0" "s \<noteq> []" "\<not> this_isNot this"
    and "opt_customSnapshotIdentifier opts = Some (IdLiteral s)"
  shows "timesCalled (snd (snd (matcher_call lib common this received opts viewRace updateRace w)))
           = (timesCalled w)(s \<mapsto> attempts w s + 1)"
  using assms matcher_call_globals [of lib common this received opts viewRace updateRace w]
  by (simp add: or_else_def retryTimes_of_def createSnapshotIdentifier_def register_def falsy_def
        count_call_def Let_def)

subsection \<open>What \<open>checkResult\<close> and the review do once reached\<close>

text \<open>
  \<open>checkResult\<close> counts a failing comparison in \<open>unmatched\<close> once retries are disabled or used
  up, unless \<open>UNSTABLE_SKIP_REPORTING\<close> is set. And where the \<open>fs\<close> object handed to the module
  does have a member \<open>syncExists\<close> and the update prompt has been started, a confirmed update
  renames the received file onto the baseline and the result becomes \<open>Updated\<close>, while a
  declined or timed-out one leaves the files and the result as they were.
\<close>

lemma checkResult_unmatched:
  assumes "\<not> result_pass r"
  shows "snd (checkResult w (Compared r) st retryTimes snapshotIdentifier chalk dd di asm) =
         (if \<not> UNSTABLE_SKIP_REPORTING w
             \<and> (retryTimes = 0 \<or> exceeds (timesCalled w snapshotIdentifier) retryTimes)
          then st\<lparr>unmatched := unmatched st + 1\<rparr> else st)"
  using assms by (simp add: checkResult_def updateSnapshotState_def merge_simps)

lemma review_update_prompt:
  fixes name diffDir snapshotIdentifier receivedPath baselinePath :: string and chalk :: nat
    and viewRace updateRace :: race and retryTimes :: int and dd di asm :: bool
    and result :: comparison_result and st :: snapshot_state and w :: world
  defines "R \<equiv> reviewAndCheck name chalk diffDir snapshotIdentifier receivedPath baselinePath
                  viewRace updateRace retryTimes dd di asm result st w"
  defines "C \<equiv> checkResult w result st retryTimes snapshotIdentifier chalk dd di asm"
  assumes "update_prompts w < update_prompts (snd (snd R))"
  shows "(updateRace = Answered True \<longrightarrow>
            files (snd (snd R)) = ((files w)(receivedPath := None))(baselinePath := files w receivedPath)
            \<and> fst R = Inr \<lparr>message = empty_message, pass = True\<rparr>
            \<and> fst (snd R) =
                (if UNSTABLE_SKIP_REPORTING w then st else st\<lparr>updated := updated st + 1\<rparr>))
         \<and> (updateRace = Answered False \<or> updateRace = TimedOut \<longrightarrow>
            files (snd (snd R)) = files w \<and> fst R = Inr (fst C) \<and> fst (snd R) = snd C)"
proof -
  from update_prompt_reached [OF assms(3) [unfolded R_def]]
  obtain bytes where a: "fs_syncExists w" and b: "files w receivedPath = Some bytes"
    and c: "\<forall>e. viewRace \<noteq> Rejected e"
    by auto
  from interactiveReview_settled [OF c]
  obtain wv where
    review: "interactiveReview name chalk diffDir snapshotIdentifier receivedPath baselinePath
       viewRace updateRace result w
     = updatePrompt snapshotIdentifier receivedPath baselinePath updateRace result wv"
    and frame: "files wv = files w" "timesCalled wv = timesCalled w"
      "UNSTABLE_SKIP_REPORTING wv = UNSTABLE_SKIP_REPORTING w"
    by blast
  have R: "R = (let reviewed = updatePrompt snapshotIdentifier receivedPath baselinePath updateRace result wv
                in case fst reviewed of
                     Inl e \<Rightarrow> (Inl e, st, snd reviewed)
                   | Inr result' \<Rightarrow>
                       (Inr (fst (checkResult (snd reviewed) result' st retryTimes
                                    snapshotIdentifier chalk dd di asm)),
                        snd (checkResult (snd reviewed) result' st retryTimes
                               snapshotIdentifier chalk dd di asm),
                        snd reviewed))"
    using a b review unfolding R_def
    by (simp add: reviewAndCheck_def existsSync_def Let_def split: sum.split)
  show ?thesis
  proof (intro conjI impI)
    assume u: "updateRace = Answered True"
    have b': "files wv receivedPath = Some bytes" using b frame by simp
    note R' = R [unfolded u updatePrompt_confirmed [OF b']]
    show "files (snd (snd R)) = ((files w)(receivedPath := None))(baselinePath := files w receivedPath)"
      unfolding R' using b frame by (simp add: Let_def)
    show "fst R = Inr \<lparr>message = empty_message, pass = True\<rparr>"
      unfolding R' by (simp add: Let_def checkResult_def)
    show "fst (snd R) = (if UNSTABLE_SKIP_REPORTING w then st else st\<lparr>updated := updated st + 1\<rparr>)"
      unfolding R' using frame
      by (simp add: Let_def checkResult_def updateSnapshotState_def merge_simps)
  next
    assume u: "updateRace = Answered False \<or> updateRace = TimedOut"
    note R' = R [unfolded updatePrompt_declined [OF u]]
    have same: "checkResult w2 result st retryTimes snapshotIdentifier chalk dd di asm = C"
      if "UNSTABLE_SKIP_REPORTING w2 = UNSTABLE_SKIP_REPORTING w" "timesCalled w2 = timesCalled w"
      for w2
      unfolding C_def using that by (rule checkResult_reads)
    show "files (snd (snd R)) = files w"
      unfolding R' using frame by (simp add: Let_def)
    show "fst R = Inr (fst C)"
      unfolding R' by (simp add: Let_def same frame)
    show "fst (snd R) = snd C"
      unfolding R' by (simp add: Let_def same frame)
  qed
qed

section \<open>The run-state bookkeeping\<close>

text \<open>
  Claim C1. A failing comparison is to be counted in \<open>unmatched\<close> once retries are disabled
  or used up, and \<open>checkResult\<close> would do so (lemma \<open>checkResult_unmatched\<close>). The matcher does
  not get there: the guard of line 248 is written \<open>fs.syncExists\<close>, where line 216 has
  \<open>fs.existsSync\<close>, and the \<open>fs\<close> module has no such member. After a comparison that returned,
  failing or not, lines 248 to 301 throw the \<open>TypeError\<close> and leave the snapshot state and
  the process as they were, so that no call of the matcher changes \<open>unmatched\<close>.
\<close>

theorem failing_comparison_not_counted:
  assumes "\<not> fs_syncExists w"
  shows "reviewAndCheck currentTestName chalk diffDir snapshotIdentifier receivedPath
           baselinePath viewRace updateRace retryTimes dd di asm (Compared r) st w
         = (Inl (TypeError ''fs.syncExists is not a function''), st, w)
       \<and> unmatched (fst (snd (matcher_call lib common this received opts viewRace updateRace w)))
         = unmatched (this_snapshotState this)"
proof -
  from matcher_call_stock_fs(1) [OF assms, of lib common this received opts viewRace updateRace]
  have "unmatched (fst (snd (matcher_call lib common this received opts viewRace updateRace w)))
         = unmatched (this_snapshotState this)"
    by (auto simp add: recordInvocation_eq)
  then show ?thesis
    by (simp add: reviewAndCheck_stock_fs [OF assms])
qed

text \<open>
  The failing input: Node's \<open>fs\<close>, the flag not set, no retries, a baseline on storage, and
  a comparison that fails and stores the received image. The call throws, and \<open>unmatched\<close> is
  still 0.
\<close>

theorem failing_comparison_not_counted_witness:
  "\<not> fs_syncExists
       (sample_world\<lparr>files := [''tests/__image_snapshots__/page/renders-snap.png'' \<mapsto> ''old'']\<rparr>)
   \<and> \<not> UNSTABLE_SKIP_REPORTING
       (sample_world\<lparr>files := [''tests/__image_snapshots__/page/renders-snap.png'' \<mapsto> ''old'']\<rparr>)
   \<and> retryTimes_of
       (sample_world\<lparr>files := [''tests/__image_snapshots__/page/renders-snap.png'' \<mapsto> ''old'']\<rparr>)
     = 0
   \<and> \<not> result_pass sample_failure
   \<and> fst (toMatchImageSnapshot (sample_lib failing_engine) sample_this ''new'' no_options
            TimedOut TimedOut
            (sample_world\<lparr>files := [''tests/__image_snapshots__/page/renders-snap.png'' \<mapsto> ''old'']\<rparr>))
     = Inl (TypeError ''fs.syncExists is not a function'')
   \<and> unmatched (fst (snd (toMatchImageSnapshot (sample_lib failing_engine) sample_this ''new''
            no_options TimedOut TimedOut
            (sample_world\<lparr>files := [''tests/__image_snapshots__/page/renders-snap.png'' \<mapsto> ''old'']\<rparr>))))
     = 0
   \<and> files (snd (snd (toMatchImageSnapshot (sample_lib failing_engine) sample_this ''new''
            no_options TimedOut TimedOut
            (sample_world\<lparr>files := [''tests/__image_snapshots__/page/renders-snap.png'' \<mapsto> ''old'']\<rparr>))))
       ''tests/__received_snapshots__/page/renders-snap-received.png''
     = Some ''new''"
proof -
  let ?W = "sample_world\<lparr>files := [''tests/__image_snapshots__/page/renders-snap.png'' \<mapsto> ''old'']\<rparr>"
  have stock: "\<not> fs_syncExists ?W" by (simp add: sample_world_def)
  have thrown: "fst (toMatchImageSnapshot (sample_lib failing_engine) sample_this ''new''
            no_options TimedOut TimedOut ?W)
     = Inl (TypeError ''fs.syncExists is not a function'')"
    by (simp add: matcher_defs sample_defs reviewAndCheck_def emit_def)
  have stored: "files (snd (snd (toMatchImageSnapshot (sample_lib failing_engine) sample_this
            ''new'' no_options TimedOut TimedOut ?W)))
       ''tests/__received_snapshots__/page/renders-snap-received.png''
     = Some ''new''"
    by (simp add: matcher_defs sample_defs reviewAndCheck_def emit_def)
  from failing_comparison_not_counted
         [OF stock, where lib = "sample_lib failing_engine" and common = "common_defaults no_options"
            and this = sample_this and received = "''new''" and opts = no_options
            and viewRace = TimedOut and updateRace = TimedOut]
    stock thrown stored
  show ?thesis
    by (simp add: toMatchImageSnapshot_def configureToMatchImageSnapshot_def)
       (simp add: sample_defs retryTimes_of_def)
qed

text \<open>
  Claim C2. With \<open>UNSTABLE_SKIP_REPORTING\<close> set, recording the outcome (\<open>checkResult\<close>) leaves
  the snapshot state untouched, whatever the result; recording the invocation (line 197)
  does not: the entry of the current test in \<open>_counters\<close> is written all the same, since the
  map is changed in place before \<open>updateSnapshotState\<close> reaches its guard.
\<close>

theorem skip_reporting_counts_invocation:
  assumes "UNSTABLE_SKIP_REPORTING w"
  shows "snd (checkResult w result st retryTimes snapshotIdentifier chalk dd di asm) = st
         \<and> recordInvocation w st currentTestName =
             st\<lparr>counters := (counters st)
                  (currentTestName \<mapsto>
                     (case counters st currentTestName of None \<Rightarrow> 0 | Some n \<Rightarrow> n) + 1)\<rparr>"
  using assms
  by (simp add: checkResult_def updateSnapshotState_def recordInvocation_def Let_def
           split: comparison_result.split)

text \<open>
  The instance: a first matcher call in the test \<open>page...renders\<close>, with the flag set, leaves
  the counter of that test at 1, where the state before the call had none.
\<close>

theorem skip_reporting_counts_invocation_witness:
  "UNSTABLE_SKIP_REPORTING (sample_world\<lparr>UNSTABLE_SKIP_REPORTING := True\<rparr>)
   \<and> snd (checkResult (sample_world\<lparr>UNSTABLE_SKIP_REPORTING := True\<rparr>) (Compared sample_failure)
            sample_state 0 ''renders-snap'' 0 False False False) = sample_state
   \<and> counters (recordInvocation (sample_world\<lparr>UNSTABLE_SKIP_REPORTING := True\<rparr>) sample_state
                 ''page...renders'') ''page...renders'' = Some 1
   \<and> counters sample_state ''page...renders'' = None
   \<and> counters (fst (snd (toMatchImageSnapshot (sample_lib failing_engine) sample_this ''png''
                            no_options TimedOut TimedOut
                            (sample_world\<lparr>UNSTABLE_SKIP_REPORTING := True\<rparr>))))
        ''page...renders'' = Some 1"
proof -
  have call:
    "fst (snd (toMatchImageSnapshot (sample_lib failing_engine) sample_this ''png'' no_options
                 TimedOut TimedOut (sample_world\<lparr>UNSTABLE_SKIP_REPORTING := True\<rparr>)))
     = recordInvocation (sample_world\<lparr>UNSTABLE_SKIP_REPORTING := True\<rparr>) sample_state
         ''page...renders''"
    by (simp add: toMatchImageSnapshot_def configureToMatchImageSnapshot_def matcher_call_def
          common_defaults_def no_options_def default_to_def or_else_def sample_this_def
          sample_world_def sample_state_def sample_lib_def recordInvocation_def
          updateSnapshotState_def createSnapshotIdentifier_def register_def js_split_def
          js_index_def template_string_def describeName_of_def or_path_def directory_def
          slash_join_def SNAPSHOTS_DIR_def emit_def existsSync_def retryTimes_of_def Let_def)
  show ?thesis
    using skip_reporting_counts_invocation
            [of "sample_world\<lparr>UNSTABLE_SKIP_REPORTING := True\<rparr>" "Compared sample_failure"
                sample_state 0 "''renders-snap''" 0 False False False "''page...renders''"]
    by (simp add: call) (simp add: sample_world_def sample_state_def)
qed

section \<open>The identifier resolution\<close>

text \<open>
  Claim C3, as amended. When no custom identifier is supplied and retries are disabled, the
  resolved identifier is the second segment of \<open>currentTestName\<close> split at \<open>...\<close> (the word
  \<open>undefined\<close> when there is no second segment) followed by \<open>-snap\<close>. It is a function of the
  test name alone: the invocation counter, the test file and the describe-block segment do
  not enter it, and the process state is left as it is.
\<close>

theorem default_identifier_is_leaf_title:
  "createSnapshotIdentifier lib 0 testPath currentTestName None snapshotState w =
     Inr (template_string (js_index (js_split ''...'' currentTestName) 1) @ ''-snap'', w)"
  by (simp add: createSnapshotIdentifier_def register_def Let_def)

text \<open>
  Instances: the test \<open>page...renders\<close>, and a test name without the delimiter.
\<close>

theorem default_identifier_is_leaf_title_witness:
  "createSnapshotIdentifier (sample_lib failing_engine) 0 ''tests/page.spec.js'' ''page...renders''
     None sample_state sample_world = Inr (''renders-snap'', sample_world)
   \<and> createSnapshotIdentifier (sample_lib failing_engine) 0 ''tests/page.spec.js'' ''renders''
     None sample_state sample_world = Inr (''undefined-snap'', sample_world)"
  using default_identifier_is_leaf_title
          [of "sample_lib failing_engine" "''tests/page.spec.js''" "''page...renders''"
              sample_state sample_world]
        default_identifier_is_leaf_title
          [of "sample_lib failing_engine" "''tests/page.spec.js''" "''renders''"
              sample_state sample_world]
  by (simp add: js_split_def js_index_def template_string_def)

text \<open>
  Claim C3 as first stated fails: the first and the second assertion of the test
  \<open>page...renders\<close> (counter 1, then 2) resolve to the same identifier, and so does the test
  \<open>menu...renders\<close>, which differs in the describe-block segment only.
\<close>

theorem default_identifier_not_unique:
  "createSnapshotIdentifier (sample_lib failing_engine) 0 ''tests/page.spec.js'' ''page...renders''
     None (sample_state\<lparr>counters := [''page...renders'' \<mapsto> 1]\<rparr>) sample_world
     = Inr (''renders-snap'', sample_world)
   \<and> createSnapshotIdentifier (sample_lib failing_engine) 0 ''tests/page.spec.js'' ''page...renders''
     None (sample_state\<lparr>counters := [''page...renders'' \<mapsto> 2]\<rparr>) sample_world
     = Inr (''renders-snap'', sample_world)
   \<and> createSnapshotIdentifier (sample_lib failing_engine) 0 ''tests/page.spec.js'' ''menu...renders''
     None (sample_state\<lparr>counters := [''menu...renders'' \<mapsto> 1]\<rparr>) sample_world
     = Inr (''renders-snap'', sample_world)"
  by (simp add: createSnapshotIdentifier_def register_def Let_def js_split_def js_index_def
        template_string_def)

text \<open>
  Claim C4, as amended. With retries active (\<open>retryTimes\<close> not 0), resolution throws the
  configuration error when no custom identifier is supplied (absent or the empty string) and
  when the custom identifier function returns the empty string; with a non-empty string, or
  a function returning one, it succeeds with that identifier and counts the resolution in
  \<open>timesCalled\<close>, whether or not the same identifier was resolved before. With
  \<open>retryTimes = 0\<close> a function returning the empty string falls back to the default
  identifier without error. Where resolution throws, the matcher rejects with that error and
  leaves the process as it was: nothing was compared, no file touched, no effect logged.
\<close>

theorem retry_identifier_resolution:
  fixes lib :: collaborators and testPath name :: string and st :: snapshot_state
    and w w' :: world and f :: "string \<Rightarrow> string \<Rightarrow> nat option \<Rightarrow> string \<Rightarrow> string"
    and common :: common_config and this :: matcher_context and received :: string
    and opts :: options and viewRace updateRace :: race
  defines "fallback \<equiv> defaultIdentifier_of lib testPath name (counters st name)"
  defines "customRes \<equiv> f testPath name (counters st name) fallback"
  defines "resolve \<equiv>
    (\<lambda>retryTimes custom. createSnapshotIdentifier lib retryTimes testPath name custom st w)"
  defines "call \<equiv> matcher_call lib common this received opts viewRace updateRace w'"
  shows
  "(retryTimes \<noteq> 0 \<and> falsy custom \<longrightarrow> resolve retryTimes custom = Inl retry_error)
   \<and> (retryTimes \<noteq> 0 \<and> customRes = [] \<longrightarrow>
        resolve retryTimes (Some (IdFunction f)) = Inl retry_error)
   \<and> (retryTimes \<noteq> 0 \<and> s \<noteq> [] \<longrightarrow>
        resolve retryTimes (Some (IdLiteral s)) = Inr (s, count_call s w))
   \<and> (retryTimes \<noteq> 0 \<and> customRes \<noteq> [] \<longrightarrow>
        resolve retryTimes (Some (IdFunction f)) = Inr (customRes, count_call customRes w))
   \<and> (customRes = [] \<longrightarrow> resolve 0 (Some (IdFunction f)) = Inr (fallback, w))
   \<and> (\<not> this_isNot this
        \<and> createSnapshotIdentifier lib (retryTimes_of w') (this_testPath this)
             (this_currentTestName this)
             (or_else (opt_customSnapshotIdentifier opts) (commonCustomSnapshotIdentifier common))
             (recordInvocation w' (this_snapshotState this) (this_currentTestName this)) w'
            = Inl retry_error \<longrightarrow>
        fst call = Inl retry_error \<and> snd (snd call) = w')"
  unfolding fallback_def customRes_def resolve_def call_def
  by (auto simp add: createSnapshotIdentifier_def register_def falsy_def Let_def
        matcher_call_resolution_error split: option.splits custom_identifier.splits)

text \<open>
  Instances, with two retries allowed: no custom identifier; a function returning the empty
  string; a string; a function returning a string; without retries, a function returning the
  empty string; and the matcher called with no custom identifier.
\<close>

theorem retry_identifier_resolution_witness:
  "createSnapshotIdentifier (sample_lib failing_engine) 2 ''tests/page.spec.js'' ''page...renders''
      None sample_state sample_world = Inl retry_error
   \<and> createSnapshotIdentifier (sample_lib failing_engine) 2 ''tests/page.spec.js'' ''page...renders''
        (Some (IdFunction (\<lambda>testPath name counter fallback. []))) sample_state sample_world
      = Inl retry_error
   \<and> createSnapshotIdentifier (sample_lib failing_engine) 2 ''tests/page.spec.js'' ''page...renders''
        (Some (IdLiteral ''home'')) sample_state sample_world
      = Inr (''home'', count_call ''home'' sample_world)
   \<and> createSnapshotIdentifier (sample_lib failing_engine) 2 ''tests/page.spec.js'' ''page...renders''
        (Some (IdFunction (\<lambda>testPath name counter fallback. ''home''))) sample_state sample_world
      = Inr (''home'', count_call ''home'' sample_world)
   \<and> createSnapshotIdentifier (sample_lib failing_engine) 0 ''tests/page.spec.js'' ''page...renders''
        (Some (IdFunction (\<lambda>testPath name counter fallback. []))) sample_state sample_world
      = Inr (''tests/page.spec.js-page...renders-undefined'', sample_world)
   \<and> fst (toMatchImageSnapshot (sample_lib failing_engine) sample_this ''png'' no_options TimedOut
             TimedOut (sample_world\<lparr>RETRY_TIMES := Some 2\<rparr>)) = Inl retry_error
   \<and> snd (snd (toMatchImageSnapshot (sample_lib failing_engine) sample_this ''png'' no_options
                  TimedOut TimedOut (sample_world\<lparr>RETRY_TIMES := Some 2\<rparr>)))
      = sample_world\<lparr>RETRY_TIMES := Some 2\<rparr>"
proof -
  let ?L = "sample_lib failing_engine"
  let ?W = "sample_world\<lparr>RETRY_TIMES := Some 2\<rparr>"
  have none: "falsy None" by (simp add: falsy_def)
  have dflt: "defaultIdentifier_of ?L ''tests/page.spec.js'' ''page...renders''
                (counters sample_state ''page...renders'')
              = ''tests/page.spec.js-page...renders-undefined''"
    by (simp add: defaultIdentifier_of_def sample_lib_def sample_state_def template_nat_def)
  have resolve: "createSnapshotIdentifier ?L (retryTimes_of ?W) (this_testPath sample_this)
             (this_currentTestName sample_this)
             (or_else (opt_customSnapshotIdentifier no_options)
                (commonCustomSnapshotIdentifier (common_defaults no_options)))
             (recordInvocation ?W (this_snapshotState sample_this)
                (this_currentTestName sample_this)) ?W
            = Inl retry_error"
    using retry_identifier_resolution
      [where retryTimes = "retryTimes_of ?W" and custom = None and lib = ?L
         and testPath = "this_testPath sample_this" and name = "this_currentTestName sample_this"
         and st = "recordInvocation ?W (this_snapshotState sample_this)
                     (this_currentTestName sample_this)"
         and w = ?W]
    by (simp add: retryTimes_of_def sample_world_def or_else_def no_options_def
          common_defaults_def falsy_def)
  have not_negated: "\<not> this_isNot sample_this" by (simp add: sample_this_def)
  note inst = retry_identifier_resolution
      [where retryTimes = 2 and custom = None and lib = ?L and testPath = "''tests/page.spec.js''"
         and name = "''page...renders''" and st = sample_state and w = sample_world
         and f = "\<lambda>testPath name counter fallback. []" and s = "''home''" and this = sample_this
         and opts = no_options and common = "common_defaults no_options" and w' = ?W
         and received = "''png''" and viewRace = TimedOut and updateRace = TimedOut]
    retry_identifier_resolution
      [where retryTimes = 2 and custom = None and lib = ?L and testPath = "''tests/page.spec.js''"
         and name = "''page...renders''" and st = sample_state and w = sample_world
         and f = "\<lambda>testPath name counter fallback. ''home''" and s = "''home''"
         and this = sample_this and opts = no_options and common = "common_defaults no_options"
         and w' = ?W and received = "''png''" and viewRace = TimedOut and updateRace = TimedOut]
  show ?thesis
    using inst none dflt resolve not_negated
    by (simp add: toMatchImageSnapshot_def configureToMatchImageSnapshot_def)
qed

text \<open>
  Claim C4 as first stated fails on the uniqueness it asks for: with one retry allowed, the
  identifier \<open>home\<close> is resolved at the first attempt and again at the second, and neither
  resolution throws; the second finds the count 1 and leaves 2.
\<close>

theorem repeated_identifier_accepted:
  "createSnapshotIdentifier (sample_lib failing_engine) 1 ''tests/page.spec.js'' ''page...renders''
      (Some (IdLiteral ''home'')) sample_state sample_world
     = Inr (''home'', sample_world\<lparr>timesCalled := [''home'' \<mapsto> 1]\<rparr>)
   \<and> createSnapshotIdentifier (sample_lib failing_engine) 1 ''tests/page.spec.js'' ''page...renders''
      (Some (IdLiteral ''home'')) sample_state (sample_world\<lparr>timesCalled := [''home'' \<mapsto> 1]\<rparr>)
     = Inr (''home'', sample_world\<lparr>timesCalled := [''home'' \<mapsto> 2]\<rparr>)"
  by (simp add: createSnapshotIdentifier_def register_def falsy_def count_call_def attempts_def
        sample_world_def Let_def numeral_2_eq_2)

section \<open>The interactive review\<close>



text \<open>
  Claim C6. A confirmed update prompt is to rename the received file onto the baseline, make
  the verdict pass and count in \<open>updated\<close> (lemma \<open>review_update_prompt\<close> has what lines 275 to
  289 do once reached). With the \<open>fs\<close> module of Node.js they are not reached, since line 248
  throws first: in no call of the matcher is the update prompt started or a file renamed,
  \<open>updated\<close> stays as it was, and no verdict with \<open>pass\<close> true is returned, whatever the answer
  to the prompt would be.
\<close>

theorem update_never_offered:
  fixes lib :: collaborators and common :: common_config and this :: matcher_context
    and received :: string and opts :: options and viewRace updateRace :: race and w :: world
  defines "M \<equiv> matcher_call lib common this received opts viewRace updateRace w"
  assumes "\<not> fs_syncExists w"
  shows "update_prompts (snd (snd M)) = update_prompts w
       \<and> renames (snd (snd M)) = renames w
       \<and> updated (fst (snd M)) = updated (this_snapshotState this)
       \<and> (\<forall>v. fst M = Inr v \<longrightarrow> \<not> pass v)"
proof -
  note stock = matcher_call_stock_fs [OF assms(2), of lib common this received opts viewRace updateRace]
  have "updated (fst (snd M)) = updated (this_snapshotState this)"
    using stock(1) unfolding M_def by (auto simp add: recordInvocation_eq)
  moreover have "\<not> pass v" if "fst M = Inr v" for v
    using stock(3) [OF that [unfolded M_def]] by simp
  ultimately show ?thesis
    using stock(2) unfolding M_def by (simp add: update_prompts_review renames_review)
qed

text \<open>
  The failing input: Node's \<open>fs\<close>, the flag not set, a baseline on storage, a comparison that
  fails and stores the received image, and a user who would confirm the update. The call
  throws, the baseline holds the old bytes, no prompt was started and \<open>updated\<close> is still 0.
\<close>

theorem update_never_offered_witness:
  "\<not> fs_syncExists
       (sample_world\<lparr>files := [''tests/__image_snapshots__/page/renders-snap.png'' \<mapsto> ''old'']\<rparr>)
   \<and> \<not> UNSTABLE_SKIP_REPORTING
       (sample_world\<lparr>files := [''tests/__image_snapshots__/page/renders-snap.png'' \<mapsto> ''old'']\<rparr>)
   \<and> fst (toMatchImageSnapshot (sample_lib failing_engine) sample_this ''new'' no_options
            TimedOut (Answered True)
            (sample_world\<lparr>files := [''tests/__image_snapshots__/page/renders-snap.png'' \<mapsto> ''old'']\<rparr>))
     = Inl (TypeError ''fs.syncExists is not a function'')
   \<and> files (snd (snd (toMatchImageSnapshot (sample_lib failing_engine) sample_this ''new''
            no_options TimedOut (Answered True)
            (sample_world\<lparr>files := [''tests/__image_snapshots__/page/renders-snap.png'' \<mapsto> ''old'']\<rparr>))))
       ''tests/__image_snapshots__/page/renders-snap.png''
     = Some ''old''
   \<and> files (snd (snd (toMatchImageSnapshot (sample_lib failing_engine) sample_this ''new''
            no_options TimedOut (Answered True)
            (sample_world\<lparr>files := [''tests/__image_snapshots__/page/renders-snap.png'' \<mapsto> ''old'']\<rparr>))))
       ''tests/__received_snapshots__/page/renders-snap-received.png''
     = Some ''new''
   \<and> update_prompts (snd (snd (toMatchImageSnapshot (sample_lib failing_engine) sample_this
            ''new'' no_options TimedOut (Answered True)
            (sample_world\<lparr>files := [''tests/__image_snapshots__/page/renders-snap.png'' \<mapsto> ''old'']\<rparr>))))
     = 0
   \<and> renames (snd (snd (toMatchImageSnapshot (sample_lib failing_engine) sample_this
            ''new'' no_options TimedOut (Answered True)
            (sample_world\<lparr>files := [''tests/__image_snapshots__/page/renders-snap.png'' \<mapsto> ''old'']\<rparr>))))
     = 0
   \<and> updated (fst (snd (toMatchImageSnapshot (sample_lib failing_engine) sample_this ''new''
            no_options TimedOut (Answered True)
            (sample_world\<lparr>files := [''tests/__image_snapshots__/page/renders-snap.png'' \<mapsto> ''old'']\<rparr>))))
     = 0"
proof -
  let ?W = "sample_world\<lparr>files := [''tests/__image_snapshots__/page/renders-snap.png'' \<mapsto> ''old'']\<rparr>"
  have stock: "\<not> fs_syncExists ?W" "\<not> UNSTABLE_SKIP_REPORTING ?W"
    by (simp_all add: sample_world_def)
  have before: "update_prompts ?W = 0" "renames ?W = 0"
    "updated (this_snapshotState sample_this) = 0"
    by (simp_all add: update_prompts_def renames_def sample_defs)
  have run: "fst (toMatchImageSnapshot (sample_lib failing_engine) sample_this ''new''
            no_options TimedOut (Answered True) ?W)
     = Inl (TypeError ''fs.syncExists is not a function'')"
    "files (snd (snd (toMatchImageSnapshot (sample_lib failing_engine) sample_this ''new''
            no_options TimedOut (Answered True) ?W)))
       ''tests/__image_snapshots__/page/renders-snap.png''
     = Some ''old''"
    "files (snd (snd (toMatchImageSnapshot (sample_lib failing_engine) sample_this ''new''
            no_options TimedOut (Answered True) ?W)))
       ''tests/__received_snapshots__/page/renders-snap-received.png''
     = Some ''new''"
    by (simp_all add: matcher_defs sample_defs reviewAndCheck_def emit_def)
  from update_never_offered
         [OF stock(1), where lib = "sample_lib failing_engine"
            and common = "common_defaults no_options"
            and this = sample_this and received = "''new''" and opts = no_options
            and viewRace = TimedOut and updateRace = "Answered True"]
    stock before run
  show ?thesis
    by (simp add: toMatchImageSnapshot_def configureToMatchImageSnapshot_def)
qed

section \<open>The missing baseline\<close>

text \<open>
  Claim C7, as amended. When the call is not negated, the identifier is resolved, the update
  mode is \<open>none\<close> and no baseline file exists for the resolved identifier, the matcher does
  not throw: it returns the verdict with \<open>pass\<close> false whose message contains \<open>not written\<close>
  and \<open>continuous integration\<close>. The four counters and the update mode of the snapshot state
  are as before the call. Where \<open>UNSTABLE_SKIP_REPORTING\<close> is not set, the invocation recorded
  at line 197 is the one change to the snapshot state: the invocation counter of the current
  test is one more than before.
\<close>

theorem missing_baseline_verdict:
  fixes lib :: collaborators and common :: common_config and this :: matcher_context
    and received :: string and opts :: options and viewRace updateRace :: race and w w1 :: world
  defines "name \<equiv> this_currentTestName this"
  defines "st \<equiv> this_snapshotState this"
  defines "R \<equiv> matcher_call lib common this received opts viewRace updateRace w"
  assumes "\<not> this_isNot this"
    and "createSnapshotIdentifier lib (retryTimes_of w) (this_testPath this) name
           (or_else (opt_customSnapshotIdentifier opts) (commonCustomSnapshotIdentifier common))
           (recordInvocation w st name) w = Inr (snapshotIdentifier, w1)"
    and "updateSnapshot st = ''none''"
    and "files w (join lib
           [directory lib (or_else (opt_customSnapshotsDir opts) (commonCustomSnapshotsDir common))
              (this_testPath this) SNAPSHOTS_DIR name,
            snapshotIdentifier @ ''.png'']) = None"
  shows "fst R = Inr \<lparr>message = missing_baseline_message
                                   (chalk_level (or_else (opt_noColors opts) (commonNoColors common)) w),
                      pass = False\<rparr>
         \<and> (\<forall>chalk w''. js_includes (fst (missing_baseline_message chalk w'')) ''not written''
                \<and> js_includes (fst (missing_baseline_message chalk w'')) ''continuous integration'')
         \<and> matched (fst (snd R)) = matched st \<and> added (fst (snd R)) = added st
         \<and> updated (fst (snd R)) = updated st \<and> unmatched (fst (snd R)) = unmatched st
         \<and> updateSnapshot (fst (snd R)) = updateSnapshot st
         \<and> (\<not> UNSTABLE_SKIP_REPORTING w \<longrightarrow>
              fst (snd R) =
                st\<lparr>counters := (counters st)
                     (name \<mapsto> (case counters st name of None \<Rightarrow> 0 | Some n \<Rightarrow> n) + 1)\<rparr>)"
proof -
  note frame = createSnapshotIdentifier_frame [OF assms(5)]
  have "R = (Inr \<lparr>message = missing_baseline_message
                                   (chalk_level (or_else (opt_noColors opts) (commonNoColors common)) w),
                      pass = False\<rparr>, recordInvocation w st name,
             emit (MarkTouchedFile (join lib
           [directory lib (or_else (opt_customSnapshotsDir opts) (commonCustomSnapshotsDir common))
              (this_testPath this) SNAPSHOTS_DIR name,
            snapshotIdentifier @ ''.png''])) w1)"
    using assms(4-7) frame unfolding R_def name_def st_def
    by (simp add: matcher_call_def Let_def existsSync_def emit_def recordInvocation_eq)
  then show ?thesis
    by (simp add: missing_baseline_message_text recordInvocation_eq)
qed

text \<open>
  The instance for claim C7: the first call in the test \<open>page...renders\<close>, update mode \<open>none\<close>,
  no file, the flag not set.
\<close>

theorem missing_baseline_verdict_witness:
  "\<not> UNSTABLE_SKIP_REPORTING sample_world
   \<and> fst (toMatchImageSnapshot (sample_lib failing_engine) sample_this ''png'' no_options TimedOut
          TimedOut sample_world)
     = Inr \<lparr>message = missing_baseline_message 0, pass = False\<rparr>
   \<and> js_includes (fst (missing_baseline_message 0 sample_world)) ''not written''
   \<and> js_includes (fst (missing_baseline_message 0 sample_world)) ''continuous integration''
   \<and> fst (snd (toMatchImageSnapshot (sample_lib failing_engine) sample_this ''png'' no_options
                  TimedOut TimedOut sample_world))
     = sample_state\<lparr>counters := [''page...renders'' \<mapsto> 1]\<rparr>"
proof -
  let ?L = "sample_lib failing_engine"
  have h0: "\<not> UNSTABLE_SKIP_REPORTING sample_world" by (simp add: sample_world_def)
  have h1: "\<not> this_isNot sample_this" by (simp add: sample_this_def)
  have h2: "createSnapshotIdentifier ?L (retryTimes_of sample_world) (this_testPath sample_this)
           (this_currentTestName sample_this)
           (or_else (opt_customSnapshotIdentifier no_options)
              (commonCustomSnapshotIdentifier (common_defaults no_options)))
           (recordInvocation sample_world (this_snapshotState sample_this)
              (this_currentTestName sample_this)) sample_world
         = Inr (''renders-snap'', sample_world)"
    by (simp add: matcher_defs sample_defs)
  have h3: "updateSnapshot (this_snapshotState sample_this) = ''none''"
    by (simp add: sample_defs)
  have h4: "files sample_world (join ?L
           [directory ?L (or_else (opt_customSnapshotsDir no_options)
                            (commonCustomSnapshotsDir (common_defaults no_options)))
              (this_testPath sample_this) SNAPSHOTS_DIR (this_currentTestName sample_this),
            ''renders-snap'' @ ''.png'']) = None"
    by (simp add: sample_defs)
  have level: "chalk_level (or_else (opt_noColors no_options)
                  (commonNoColors (common_defaults no_options))) sample_world = 0"
    by (simp add: matcher_defs sample_defs)
  from missing_baseline_verdict [OF h1 h2 h3 h4, of "''png''" TimedOut TimedOut] h0
  show ?thesis
    by (simp add: level toMatchImageSnapshot_def configureToMatchImageSnapshot_def)
       (simp add: sample_defs)
qed

text \<open>
  Claim C7 as first stated fails on its last part: in that same call the snapshot state
  returned differs from the one handed in, in the invocation counter of the test.
\<close>

theorem missing_baseline_changes_state:
  "fst (toMatchImageSnapshot (sample_lib failing_engine) sample_this ''png'' no_options TimedOut
          TimedOut sample_world)
     = Inr \<lparr>message = missing_baseline_message 0, pass = False\<rparr>
   \<and> fst (snd (toMatchImageSnapshot (sample_lib failing_engine) sample_this ''png'' no_options
                  TimedOut TimedOut sample_world))
     \<noteq> this_snapshotState sample_this"
proof -
  have "counters (fst (snd (toMatchImageSnapshot (sample_lib failing_engine) sample_this ''png'' no_options
                  TimedOut TimedOut sample_world))) ''page...renders'' = Some 1"
    by (simp add: matcher_defs sample_defs emit_def)
  moreover have "counters (this_snapshotState sample_this) ''page...renders'' = None"
    by (simp add: sample_defs)
  moreover have "fst (toMatchImageSnapshot (sample_lib failing_engine) sample_this ''png'' no_options TimedOut
          TimedOut sample_world)
     = Inr \<lparr>message = missing_baseline_message 0, pass = False\<rparr>"
    by (simp add: matcher_defs sample_defs emit_def)
  ultimately show ?thesis by auto
qed

section \<open>The failure message\<close>






section \<open>The retry ledger\<close>

text \<open>
  Claim C10. The retry ledger \<open>timesCalled\<close> belongs to the process, not to a matcher or its
  configuration. Under retries every resolution that succeeds adds one to the count of the
  resolved identifier, whatever \<open>UNSTABLE_SKIP_REPORTING\<close> is. No call of a matcher, of any
  configuration, lowers a count or removes an entry. Two matchers of different common
  configurations that resolve the same identifier one after the other count in the same map:
  the count grows by two.
\<close>

theorem retry_ledger_shared:
  fixes lib :: collaborators and w :: world
  defines "after \<equiv> \<lambda>commonOptions this received opts viewRace updateRace w.
             snd (snd (configureToMatchImageSnapshot lib commonOptions this received opts viewRace
                         updateRace w))"
  shows "(retryTimes \<noteq> 0
          \<and> createSnapshotIdentifier lib retryTimes testPath name custom st w = Inr (snapshotIdentifier, wr)
          \<longrightarrow> timesCalled wr = (timesCalled w)(snapshotIdentifier \<mapsto> attempts w snapshotIdentifier + 1))
     \<and> attempts w k \<le> attempts (after c this received opts viewRace updateRace w) k
     \<and> (timesCalled w k \<noteq> None \<longrightarrow>
          timesCalled (after c this received opts viewRace updateRace w) k \<noteq> None)
     \<and> (RETRY_TIMES w = Some r \<and> r \<noteq> 0 \<and> s \<noteq> [] \<and> \<not> this_isNot thisA \<and> \<not> this_isNot thisB
          \<and> opt_customSnapshotIdentifier optsA = Some (IdLiteral s)
          \<and> opt_customSnapshotIdentifier optsB = Some (IdLiteral s)
          \<longrightarrow> attempts (after cB thisB receivedB optsB viewB updateB
                         (after cA thisA receivedA optsA viewA updateA w)) s
               = attempts w s + 2)"
proof (intro conjI impI)
  assume "retryTimes \<noteq> 0
          \<and> createSnapshotIdentifier lib retryTimes testPath name custom st w = Inr (snapshotIdentifier, wr)"
  then show "timesCalled wr = (timesCalled w)(snapshotIdentifier \<mapsto> attempts w snapshotIdentifier + 1)"
    using createSnapshotIdentifier_frame [of lib retryTimes testPath name custom st w snapshotIdentifier wr]
    by simp
next
  show "attempts w k \<le> attempts (after c this received opts viewRace updateRace w) k"
    unfolding after_def configureToMatchImageSnapshot_def by (rule matcher_call_attempts)
next
  assume "timesCalled w k \<noteq> None"
  then show "timesCalled (after c this received opts viewRace updateRace w) k \<noteq> None"
    unfolding after_def configureToMatchImageSnapshot_def by (rule matcher_call_keeps_entries)
next
  assume h: "RETRY_TIMES w = Some r \<and> r \<noteq> 0 \<and> s \<noteq> [] \<and> \<not> this_isNot thisA \<and> \<not> this_isNot thisB
          \<and> opt_customSnapshotIdentifier optsA = Some (IdLiteral s)
          \<and> opt_customSnapshotIdentifier optsB = Some (IdLiteral s)"
  let ?w1 = "snd (snd (matcher_call lib (common_defaults cA) thisA receivedA optsA viewA updateA w))"
  have first: "timesCalled ?w1 = (timesCalled w)(s \<mapsto> attempts w s + 1)"
    using h by (intro matcher_call_counts_literal) auto
  have retry: "RETRY_TIMES ?w1 = Some r"
    using h matcher_call_globals [of lib "common_defaults cA" thisA receivedA optsA viewA updateA w]
    by simp
  have second: "timesCalled (snd (snd (matcher_call lib (common_defaults cB) thisB receivedB optsB
                                        viewB updateB ?w1)))
                = (timesCalled ?w1)(s \<mapsto> attempts ?w1 s + 1)"
    using h retry by (intro matcher_call_counts_literal) auto
  show "attempts (after cB thisB receivedB optsB viewB updateB
                         (after cA thisA receivedA optsA viewA updateA w)) s
               = attempts w s + 2"
    unfolding after_def configureToMatchImageSnapshot_def
    by (simp add: attempts_def second first)
qed

text \<open>
  Instances, with the flag set and two retries allowed: a resolution of \<open>home\<close> leaves the
  count 1; the default matcher and one configured to run in process, called in turn with the
  identifier \<open>home\<close>, leave the count 2.
\<close>

theorem retry_ledger_shared_witness:
  "createSnapshotIdentifier (sample_lib failing_engine) 2 ''tests/page.spec.js'' ''page...renders''
      (Some (IdLiteral ''home'')) sample_state
      (sample_world\<lparr>UNSTABLE_SKIP_REPORTING := True, RETRY_TIMES := Some 2\<rparr>)
     = Inr (''home'',
            sample_world\<lparr>UNSTABLE_SKIP_REPORTING := True, RETRY_TIMES := Some 2,
                           timesCalled := [''home'' \<mapsto> 1]\<rparr>)
   \<and> attempts (sample_world\<lparr>UNSTABLE_SKIP_REPORTING := True, RETRY_TIMES := Some 2\<rparr>) ''home'' = 0
   \<and> attempts
        (snd (snd (configureToMatchImageSnapshot (sample_lib failing_engine)
                     (no_options\<lparr>opt_runInProcess := Some True\<rparr>) sample_this ''png''
                     (no_options\<lparr>opt_customSnapshotIdentifier := Some (IdLiteral ''home'')\<rparr>)
                     TimedOut TimedOut
           (snd (snd (configureToMatchImageSnapshot (sample_lib failing_engine) no_options
                        sample_this ''png''
                        (no_options\<lparr>opt_customSnapshotIdentifier := Some (IdLiteral ''home'')\<rparr>)
                        TimedOut TimedOut
                        (sample_world\<lparr>UNSTABLE_SKIP_REPORTING := True, RETRY_TIMES := Some 2\<rparr>)))))))
        ''home'' = 2"
proof -
  let ?W = "sample_world\<lparr>UNSTABLE_SKIP_REPORTING := True, RETRY_TIMES := Some 2\<rparr>"
  let ?o = "no_options\<lparr>opt_customSnapshotIdentifier := Some (IdLiteral ''home'')\<rparr>"
  have resolved: "createSnapshotIdentifier (sample_lib failing_engine) 2 ''tests/page.spec.js''
      ''page...renders'' (Some (IdLiteral ''home'')) sample_state ?W
     = Inr (''home'', ?W\<lparr>timesCalled := [''home'' \<mapsto> 1]\<rparr>)"
    by (simp add: createSnapshotIdentifier_def register_def falsy_def count_call_def attempts_def
          sample_world_def Let_def)
  have zero: "attempts ?W ''home'' = 0"
    by (simp add: attempts_def sample_world_def)
  have hyps: "RETRY_TIMES ?W = Some 2" "\<not> this_isNot sample_this"
    "opt_customSnapshotIdentifier ?o = Some (IdLiteral ''home'')"
    by (simp_all add: sample_this_def)
  from retry_ledger_shared
         [where lib = "sample_lib failing_engine" and w = ?W and retryTimes = 2
            and testPath = "''tests/page.spec.js''" and name = "''page...renders''"
            and custom = "Some (IdLiteral ''home'')" and st = sample_state
            and snapshotIdentifier = "''home''"
            and wr = "?W\<lparr>timesCalled := [''home'' \<mapsto> 1]\<rparr>" and k = "''home''"
            and c = no_options and this = sample_this and received = "''png''" and opts = ?o
            and viewRace = TimedOut and updateRace = TimedOut and r = 2 and s = "''home''"
            and thisA = sample_this and thisB = sample_this and optsA = ?o and optsB = ?o
            and cA = no_options and cB = "no_options\<lparr>opt_runInProcess := Some True\<rparr>"
            and receivedA = "''png''" and receivedB = "''png''" and viewA = TimedOut
            and viewB = TimedOut and updateA = TimedOut and updateB = TimedOut]
    resolved zero hyps
  show ?thesis by simp
qed

end
